theory Spec2Isabelle
  imports Complex_Main "HOL-Library.Monad_Syntax"
begin

section \<open>Numbers, vectors and tensor rows\<close>

text \<open>
  The controller computes with C++ \<open>double\<close> and \<open>float\<close> and with \<open>torch::Tensor\<close>
  rows. A number is a \<^typ>\<open>real\<close> here, and the arithmetic on it is exact, with one
  exception: the progress counter \<open>running_percent\<close> is a \<open>float\<close>, and how many ticks a
  ramp takes depends on how its additions round. The counter therefore only takes values
  of \<open>float\<close>, and each operation whose result is stored in it or printed from it is
  rounded by \<open>float32\<close> below; the interpolation of a ramp, which reads the counter, is
  exact like all other arithmetic. A \<open>std::vector<double>\<close> is a \<^typ>\<open>real list\<close>; a tensor
  of shape \<open>1 \<times> n\<close> is the list of its single row.

  A call that does not return normally (a C++ exception leaving the function, or undefined
  behaviour such as indexing a \<open>std::vector\<close> outside its size or reading a local that
  was never assigned) is the value \<open>None\<close>.
\<close>

definition pow2 :: "int \<Rightarrow> real" where
  "pow2 k = (if 0 \<le> k then 2 ^ nat k else 1 / 2 ^ nat (- k))"

definition round_half_even :: "real \<Rightarrow> int" where
  \<comment> \<open>The nearest integer, the even one of the two when both are equally near.\<close>
  "round_half_even r =
     (let f = \<lfloor>r\<rfloor> in
      if r - of_int f < 1 / 2 then f
      else if r - of_int f > 1 / 2 then f + 1
      else if even f then f else f + 1)"

definition float32 :: "real \<Rightarrow> real" where
  \<comment> \<open>The value of type \<open>float\<close> (IEEE 754 binary32: 24 significant bits, least normal
      exponent -126) nearest to \<open>x\<close>, ties to even, for \<open>x\<close> of magnitude below \<open>2\<^sup>1\<^sup>2\<^sup>8\<close>;
      the counter stays between 0 and 2.\<close>
  "float32 x =
     (if x = 0 then 0
      else let e = max \<lfloor>log 2 \<bar>x\<bar>\<rfloor> (- 126); ulp = pow2 (e - 23)
           in ulp * of_int (round_half_even (x / ulp)))"

definition vec_at :: "'a list \<Rightarrow> nat \<Rightarrow> 'a option" where
  \<comment> \<open>\<open>v[i]\<close> on a \<open>std::vector\<close>, read.\<close>
  "vec_at v i = (if i < length v then Some (v ! i) else None)"

definition vec_set :: "'a list \<Rightarrow> nat \<Rightarrow> 'a \<Rightarrow> 'a list option" where
  \<comment> \<open>\<open>v[i] = x\<close> on a \<open>std::vector\<close>.\<close>
  "vec_set v i x = (if i < length v then Some (v[i := x]) else None)"

definition row_index :: "nat \<Rightarrow> int \<Rightarrow> nat option" where
  \<comment> \<open>The column that \<open>t[0][i]\<close> selects in a row of width \<open>n\<close>: torch counts a negative
      index from the end and throws outside \<open>[-n, n)\<close>.\<close>
  "row_index n i =
     (if 0 \<le> i \<and> i < int n then Some (nat i)
      else if - int n \<le> i \<and> i < 0 then Some (nat (int n + i))
      else None)"

definition row_at :: "real list \<Rightarrow> int \<Rightarrow> real option" where
  \<comment> \<open>\<open>t[0][i].item<double>()\<close>\<close>
  "row_at t i = (case row_index (length t) i of None \<Rightarrow> None | Some k \<Rightarrow> Some (t ! k))"

definition row_set :: "real list \<Rightarrow> int \<Rightarrow> real \<Rightarrow> real list option" where
  \<comment> \<open>\<open>t[0][i] = x\<close>\<close>
  "row_set t i x = (case row_index (length t) i of None \<Rightarrow> None | Some k \<Rightarrow> Some (t[k := x]))"

definition row_op :: "(real \<Rightarrow> real \<Rightarrow> real) \<Rightarrow> real list \<Rightarrow> real list \<Rightarrow> real list option" where
  \<comment> \<open>An elementwise binary operator on two rows, with torch's broadcasting: equal widths,
      or one of the two of width 1; any other pair of widths throws.\<close>
  "row_op f a b =
     (if length a = length b then Some (map2 f a b)
      else if length a = 1 then Some (map (f (hd a)) b)
      else if length b = 1 then Some (map (\<lambda>x. f x (hd b)) a)
      else None)"

definition clamp :: "real \<Rightarrow> real \<Rightarrow> real \<Rightarrow> real" where
  \<comment> \<open>\<open>torch::clamp(x, lo, hi)\<close> on one element: \<open>min(max(x, lo), hi)\<close>.\<close>
  "clamp x lo hi = min (max x lo) hi"

primrec for_loop :: "nat \<Rightarrow> (nat \<Rightarrow> 's \<Rightarrow> 's option) \<Rightarrow> 's \<Rightarrow> 's option" where
  \<comment> \<open>\<open>for (int i = 0; i < n; ++i) body(i)\<close>, stopping where the body does not return.\<close>
  "for_loop 0 body s = Some s"
| "for_loop (Suc n) body s = (case for_loop n body s of None \<Rightarrow> None | Some s' \<Rightarrow> body n s')"

section \<open>Data model\<close>

text \<open>
  Modelled from the spec: the declarations of \<open>STATE\<close>, \<open>Control\<close>, \<open>RobotState\<close>,
  \<open>RobotCommand\<close>, \<open>ModelParams\<close>, \<open>Observations\<close> and of the class \<open>RL\<close> are in
  \<open>rl_sdk.hpp\<close>, which is not among the source files. The types below follow the data
  model of the specification and have the members that \<open>rl_sdk.cpp\<close> and
  \<open>rl_real_go2.cpp\<close> read and write, under the names used there (with a prefix where two
  structs share a member name). \<open>STATE\<close> has the constants that the two files name.
\<close>

datatype STATE =
    STATE_WAITING
  | STATE_POS_GETUP
  | STATE_POS_GETDOWN
  | STATE_RL_LOCOMOTION
  | STATE_RL_NAVIGATION
  | STATE_RL_CLIMB
  | STATE_RESET_SIMULATION
  | STATE_TOGGLE_SIMULATION

record Control =
  control_state :: STATE
  control_x :: real
  control_y :: real
  control_yaw :: real

record RobotState =
  imu_quaternion :: "real list"
  imu_gyroscope :: "real list"
  st_q :: "real list"
  st_dq :: "real list"
  st_tau_est :: "real list"

record RobotCommand =
  cmd_q :: "real list"
  cmd_dq :: "real list"
  cmd_kp :: "real list"
  cmd_kd :: "real list"
  cmd_tau :: "real list"

record ModelParams =
  model_name :: string
  framework :: string
  dt :: real
  decimation :: int
  num_observations :: int
  observations :: "string list"
  observations_history :: "int list"
  clip_obs :: real
  clip_actions_upper :: "real list"
  clip_actions_lower :: "real list"
  action_scale :: "real list"
  wheel_indices :: "int list"
  num_of_dofs :: int
  lin_vel_scale :: real
  ang_vel_scale :: real
  dof_pos_scale :: real
  dof_vel_scale :: real
  commands_scale :: "real list"
  rl_kp :: "real list"
  rl_kd :: "real list"
  fixed_kp :: "real list"
  fixed_kd :: "real list"
  torque_limits :: "real list"
  default_dof_pos :: "real list"
  joint_controller_names :: "string list"
  command_mapping :: "int list"
  state_mapping :: "int list"

record Observations =
  obs_lin_vel :: "real list"
  obs_ang_vel :: "real list"
  obs_gravity_vec :: "real list"
  obs_commands :: "real list"
  obs_base_quat :: "real list"
  obs_dof_pos :: "real list"
  obs_dof_vel :: "real list"
  obs_actions :: "real list"

text \<open>A \<open>torch::Tensor\<close> that may be undefined (default-constructed) is an option.\<close>

type_synonym tensor = "real list option"

definition defined :: "tensor \<Rightarrow> bool" where
  "defined t = (t \<noteq> None)"

definition numel :: "tensor \<Rightarrow> nat" where
  "numel t = (case t of None \<Rightarrow> 0 | Some r \<Rightarrow> length r)"

text \<open>What the program prints on \<open>std::cout\<close>, one entry per message.\<close>

datatype message =
    Info_GettingUp real
  | Info_GettingDown real
  | Info_RLController real real real
  | Error_InitRL_failed string
  | Error_file_missing string
  | Warning_Torque int real real real
  | Warning_Roll real real
  | Warning_Pitch real real

record RL =
  running_percent :: real
  control :: Control
  now_state :: RobotState
  start_state :: RobotState
  rl_init_done :: bool
  is_simulation :: bool
  robot_name :: string
  config_name :: string
  default_rl_config :: string
  params :: ModelParams
  obs :: Observations
  episode_length_buf :: int
  history_obs_buf :: "(int \<times> int \<times> nat) option"
  model :: "string option"
  output_dof_pos :: tensor
  output_dof_vel :: tensor
  output_dof_tau :: tensor
  output_dof_pos_queue :: "tensor list"
  output_dof_vel_queue :: "tensor list"
  output_dof_tau_queue :: "tensor list"
  robot_state :: RobotState
  robot_command :: RobotCommand
  console :: "message list"

definition print :: "message \<Rightarrow> RL \<Rightarrow> RL" where
  "print m rl = rl\<lparr>console := console rl @ [m]\<rparr>"

section \<open>The behaviour states\<close>

datatype fsm_state =
    RLFSMStateWaiting
  | RLFSMStateGetUp
  | RLFSMStateGetDown
  | RLFSMStateRL_Locomotion
  | RLFSMStateRL_Navigation

fun stateName :: "fsm_state \<Rightarrow> string" where
  "stateName RLFSMStateWaiting = ''RLFSMStateWaiting''"
| "stateName RLFSMStateGetUp = ''RLFSMStateGetUp''"
| "stateName RLFSMStateGetDown = ''RLFSMStateGetDown''"
| "stateName RLFSMStateRL_Locomotion = ''RLFSMStateRL_Locomotion''"
| "stateName RLFSMStateRL_Navigation = ''RLFSMStateRL_Navigation''"

subsection \<open>\<open>RLFSMStateWaiting\<close>\<close>

definition Waiting_enter :: "RL \<Rightarrow> RL" where
  "Waiting_enter rl = rl\<lparr>running_percent := 0\<rparr>"

definition Waiting_dof :: "RobotState \<Rightarrow> nat \<Rightarrow> RobotCommand \<Rightarrow> RobotCommand option" where
  "Waiting_dof fsm_state i c =
     do {
       s \<leftarrow> vec_at (st_q fsm_state) i;
       q' \<leftarrow> vec_set (cmd_q c) i s;
       Some (c\<lparr>cmd_q := q'\<rparr>)
     }"

definition Waiting_run :: "RobotState \<Rightarrow> RL \<Rightarrow> RobotCommand \<Rightarrow> (RL \<times> RobotCommand) option" where
  "Waiting_run fsm_state rl c =
     do {
       c' \<leftarrow> for_loop (nat (num_of_dofs (params rl))) (Waiting_dof fsm_state) c;
       Some (rl, c')
     }"

definition Waiting_checkChange :: "RL \<Rightarrow> string" where
  "Waiting_checkChange rl =
     (if control_state (control rl) = STATE_POS_GETUP then ''RLFSMStateGetUp''
      else stateName RLFSMStateWaiting)"

definition Waiting_exit :: "RL \<Rightarrow> RL" where
  "Waiting_exit rl = rl"

subsection \<open>\<open>RLFSMStateGetUp\<close>\<close>

definition GetUp_enter :: "RobotState \<Rightarrow> RL \<Rightarrow> RL" where
  "GetUp_enter fsm_state rl =
     (let rl1 = rl\<lparr>running_percent := 0\<rparr>;
          rl2 = rl1\<lparr>now_state := fsm_state\<rparr>
      in rl2\<lparr>start_state := now_state rl2\<rparr>)"

definition GetUp_dof :: "RL \<Rightarrow> nat \<Rightarrow> RobotCommand \<Rightarrow> RobotCommand option" where
  "GetUp_dof rl i c =
     do {
       s \<leftarrow> vec_at (st_q (now_state rl)) i;
       d \<leftarrow> row_at (default_dof_pos (params rl)) (int i);
       q' \<leftarrow> vec_set (cmd_q c) i ((1 - running_percent rl) * s + running_percent rl * d);
       dq' \<leftarrow> vec_set (cmd_dq c) i 0;
       kpv \<leftarrow> row_at (fixed_kp (params rl)) (int i);
       kp' \<leftarrow> vec_set (cmd_kp c) i kpv;
       kdv \<leftarrow> row_at (fixed_kd (params rl)) (int i);
       kd' \<leftarrow> vec_set (cmd_kd c) i kdv;
       tau' \<leftarrow> vec_set (cmd_tau c) i 0;
       Some (c\<lparr>cmd_q := q', cmd_dq := dq', cmd_kp := kp', cmd_kd := kd', cmd_tau := tau'\<rparr>)
     }"

definition GetUp_run :: "RL \<Rightarrow> RobotCommand \<Rightarrow> (RL \<times> RobotCommand) option" where
  \<comment> \<open>\<open>1.0f / 500.0f\<close> is the \<open>float\<close> quotient, \<open>+=\<close> the \<open>float\<close> sum, and
      \<open>running_percent * 100.0f\<close> the \<open>float\<close> product.\<close>
  "GetUp_run rl c =
     (if running_percent rl < 1 then
        let rl1 = rl\<lparr>running_percent := float32 (running_percent rl + float32 (1 / 500))\<rparr>;
            rl2 = rl1\<lparr>running_percent := min (running_percent rl1) 1\<rparr>
        in do {
          c' \<leftarrow> for_loop (nat (num_of_dofs (params rl2))) (GetUp_dof rl2) c;
          Some (print (Info_GettingUp (float32 (running_percent rl2 * 100))) rl2, c')
        }
      else Some (rl, c))"

definition GetUp_checkChange :: "RL \<Rightarrow> string" where
  "GetUp_checkChange rl =
     (if running_percent rl \<ge> 1 then
        (if control_state (control rl) = STATE_RL_LOCOMOTION then ''RLFSMStateRL_Locomotion''
         else if control_state (control rl) = STATE_RL_NAVIGATION then ''RLFSMStateRL_Navigation''
         else if control_state (control rl) = STATE_POS_GETDOWN then ''RLFSMStateGetDown''
         else if control_state (control rl) = STATE_WAITING then ''RLFSMStateWaiting''
         else stateName RLFSMStateGetUp)
      else stateName RLFSMStateGetUp)"

definition GetUp_exit :: "RL \<Rightarrow> RL" where
  "GetUp_exit rl = rl"

subsection \<open>\<open>RLFSMStateGetDown\<close>\<close>

definition GetDown_enter :: "RobotState \<Rightarrow> RL \<Rightarrow> RL" where
  "GetDown_enter fsm_state rl =
     (let rl1 = rl\<lparr>running_percent := 0\<rparr>
      in rl1\<lparr>now_state := fsm_state\<rparr>)"

definition GetDown_dof :: "RL \<Rightarrow> nat \<Rightarrow> RobotCommand \<Rightarrow> RobotCommand option" where
  "GetDown_dof rl i c =
     do {
       s \<leftarrow> vec_at (st_q (now_state rl)) i;
       d \<leftarrow> vec_at (st_q (start_state rl)) i;
       q' \<leftarrow> vec_set (cmd_q c) i ((1 - running_percent rl) * s + running_percent rl * d);
       dq' \<leftarrow> vec_set (cmd_dq c) i 0;
       kpv \<leftarrow> row_at (fixed_kp (params rl)) (int i);
       kp' \<leftarrow> vec_set (cmd_kp c) i kpv;
       kdv \<leftarrow> row_at (fixed_kd (params rl)) (int i);
       kd' \<leftarrow> vec_set (cmd_kd c) i kdv;
       tau' \<leftarrow> vec_set (cmd_tau c) i 0;
       Some (c\<lparr>cmd_q := q', cmd_dq := dq', cmd_kp := kp', cmd_kd := kd', cmd_tau := tau'\<rparr>)
     }"

definition GetDown_run :: "RL \<Rightarrow> RobotCommand \<Rightarrow> (RL \<times> RobotCommand) option" where
  \<comment> \<open>The counter is advanced, clamped and printed as in \<open>RLFSMStateGetUp::run\<close>.\<close>
  "GetDown_run rl c =
     (if running_percent rl < 1 then
        let rl1 = rl\<lparr>running_percent := float32 (running_percent rl + float32 (1 / 500))\<rparr>;
            rl2 = rl1\<lparr>running_percent := min (running_percent rl1) 1\<rparr>
        in do {
          c' \<leftarrow> for_loop (nat (num_of_dofs (params rl2))) (GetDown_dof rl2) c;
          Some (print (Info_GettingDown (float32 (running_percent rl2 * 100))) rl2, c')
        }
      else Some (rl, c))"

definition GetDown_checkChange :: "RL \<Rightarrow> string" where
  "GetDown_checkChange rl =
     (if running_percent rl \<ge> 1 then ''RLFSMStateWaiting''
      else if control_state (control rl) = STATE_POS_GETUP then ''RLFSMStateGetUp''
      else stateName RLFSMStateGetDown)"

definition GetDown_exit :: "RL \<Rightarrow> RL" where
  "GetDown_exit rl = rl"

subsection \<open>Loading a configuration profile: \<open>RL::InitRL\<close>\<close>

text \<open>
  A call either returns, or throws an exception that a \<open>catch\<close> further up may handle;
  both carry the controller as the call left it.
\<close>

datatype 'a outcome = Returns 'a | Throws string 'a

fun throws :: "'a outcome \<Rightarrow> bool" where
  "throws (Returns x) = False"
| "throws (Throws e x) = True"

text \<open>
  The file system and the two libraries that read it are parameters. \<open>yaml_file env path key\<close>
  is what \<open>YAML::LoadFile(path)[key]\<close> followed by the field conversions of
  \<open>RL::ReadYamlRL\<close> does: the file is missing (\<open>YAML::BadFile\<close>); or a conversion throws
  after the assignments before it have changed the parameters; or every field is read.
  \<open>jit_load env path\<close> tells whether \<open>torch::jit::load(path)\<close> returns.
  \<open>source_dir\<close> is the macro \<open>CMAKE_CURRENT_SOURCE_DIR\<close>.
\<close>

datatype yaml_result =
    YamlBadFile
  | YamlThrows string "ModelParams \<Rightarrow> ModelParams"
  | YamlParsed ModelParams

record Environment =
  source_dir :: string
  yaml_file :: "string \<Rightarrow> string \<Rightarrow> yaml_result"
  jit_load :: "string \<Rightarrow> bool"

definition ReadYamlRL :: "Environment \<Rightarrow> string \<Rightarrow> RL \<Rightarrow> RL outcome" where
  \<comment> \<open>\<open>ReadYamlRL\<close> assigns every member of \<open>params\<close> except \<open>dt\<close> and \<open>decimation\<close>.\<close>
  "ReadYamlRL env robot_path rl =
     (let config_path = source_dir env @ ''/models/'' @ robot_path @ ''/config.yaml''
      in case yaml_file env config_path robot_path of
           YamlBadFile \<Rightarrow> Returns (print (Error_file_missing config_path) rl)
         | YamlThrows e f \<Rightarrow> Throws e (rl\<lparr>params := f (params rl)\<rparr>)
         | YamlParsed p \<Rightarrow>
             Returns (rl\<lparr>params := p\<lparr>dt := dt (params rl), decimation := decimation (params rl)\<rparr>\<rparr>))"

definition zeros :: "int \<Rightarrow> real list option" where
  \<comment> \<open>\<open>torch::zeros({1, n})\<close> throws on a negative size.\<close>
  "zeros n = (if n < 0 then None else Some (replicate (nat n) 0))"

definition InitObservations :: "RL \<Rightarrow> RL outcome" where
  "InitObservations rl =
     (let o1 = (obs rl)\<lparr>obs_lin_vel := [0, 0, 0], obs_ang_vel := [0, 0, 0],
                        obs_gravity_vec := [0, 0, - 1], obs_commands := [0, 0, 0],
                        obs_base_quat := [0, 0, 0, 1],
                        obs_dof_pos := default_dof_pos (params rl)\<rparr>
      in case zeros (num_of_dofs (params rl)) of
           None \<Rightarrow> Throws ''torch::zeros'' (rl\<lparr>obs := o1\<rparr>)
         | Some z \<Rightarrow> Returns (rl\<lparr>obs := o1\<lparr>obs_dof_vel := z, obs_actions := z\<rparr>\<rparr>))"

definition InitOutputs :: "RL \<Rightarrow> RL outcome" where
  "InitOutputs rl =
     (case zeros (num_of_dofs (params rl)) of
        None \<Rightarrow> Throws ''torch::zeros'' rl
      | Some z \<Rightarrow>
          Returns (rl\<lparr>output_dof_tau := Some z,
                      output_dof_pos := Some (default_dof_pos (params rl)),
                      output_dof_vel := Some z\<rparr>))"

definition InitControl :: "RL \<Rightarrow> RL" where
  "InitControl rl = rl\<lparr>control := (control rl)\<lparr>control_x := 0, control_y := 0, control_yaw := 0\<rparr>\<rparr>"

definition rename_ang_vel :: "bool \<Rightarrow> string \<Rightarrow> string" where
  "rename_ang_vel simulation observation =
     (if observation = ''ang_vel''
      then (if simulation = True then ''ang_vel_world'' else ''ang_vel_body'')
      else observation)"

definition InitRL :: "Environment \<Rightarrow> string \<Rightarrow> RL \<Rightarrow> RL outcome" where
  "InitRL env robot_path rl =
     (case ReadYamlRL env robot_path rl of
        Throws e rl1 \<Rightarrow> Throws e rl1
      | Returns rl1 \<Rightarrow>
          let rl2 = rl1\<lparr>params := (params rl1)
                      \<lparr>observations := map (rename_ang_vel (is_simulation rl1))
                                           (observations (params rl1))\<rparr>\<rparr>;
              rl3 = (if observations_history (params rl2) \<noteq> []
                     then rl2\<lparr>history_obs_buf :=
                            Some (1, num_observations (params rl2),
                                  length (observations_history (params rl2)))\<rparr>
                     else rl2);
              model_path = source_dir env @ ''/models/'' @ robot_path @ ''/''
                             @ model_name (params rl3)
          in if \<not> jit_load env model_path then Throws ''torch::jit::load'' rl3
             else
               (case InitObservations (rl3\<lparr>model := Some model_path\<rparr>) of
                  Throws e rl4 \<Rightarrow> Throws e rl4
                | Returns rl4 \<Rightarrow>
                    (case InitOutputs rl4 of
                       Throws e rl5 \<Rightarrow> Throws e rl5
                     | Returns rl5 \<Rightarrow> Returns (InitControl rl5))))"

subsection \<open>\<open>RLFSMStateRL_Locomotion\<close> and \<open>RLFSMStateRL_Navigation\<close>\<close>

definition try_pop :: "'a list \<Rightarrow> ('a \<times> 'a list) option" where
  \<comment> \<open>Modelled from the spec: the class of the hand-off queues is not in the two source
      files. A non-blocking pop: on an empty queue it fails at once and leaves its argument
      untouched, otherwise it removes and hands over the oldest element.\<close>
  "try_pop queue = (case queue of [] \<Rightarrow> None | x # rest \<Rightarrow> Some (x, rest))"

definition tensor_at :: "tensor \<Rightarrow> int \<Rightarrow> real option" where
  "tensor_at t i = (case t of None \<Rightarrow> None | Some r \<Rightarrow> row_at r i)"

definition RL_Locomotion_enter :: "Environment \<Rightarrow> RL \<Rightarrow> RL" where
  "RL_Locomotion_enter env rl =
     (let rl1 = rl\<lparr>config_name := default_rl_config rl\<rparr>;
          robot_path = robot_name rl1 @ ''/'' @ config_name rl1
      in case InitRL env robot_path rl1 of
           Returns rl2 \<Rightarrow> rl2\<lparr>rl_init_done := True\<rparr>
         | Throws e rl2 \<Rightarrow>
             let rl3 = print (Error_InitRL_failed e) rl2;
                 rl4 = rl3\<lparr>rl_init_done := False\<rparr>
             in rl4\<lparr>control := (control rl4)\<lparr>control_state := STATE_POS_GETUP\<rparr>\<rparr>)"

definition RL_Locomotion_dof :: "RL \<Rightarrow> tensor \<Rightarrow> tensor \<Rightarrow> nat \<Rightarrow> RobotCommand \<Rightarrow> RobotCommand option" where
  "RL_Locomotion_dof rl p v i c =
     do {
       c1 \<leftarrow> (if defined p \<and> numel p > 0
               then do {
                 x \<leftarrow> tensor_at (output_dof_pos rl) (int i);
                 q' \<leftarrow> vec_set (cmd_q c) i x;
                 Some (c\<lparr>cmd_q := q'\<rparr>)
               }
               else Some c);
       c2 \<leftarrow> (if defined v \<and> numel v > 0
               then do {
                 x \<leftarrow> tensor_at (output_dof_vel rl) (int i);
                 dq' \<leftarrow> vec_set (cmd_dq c1) i x;
                 Some (c1\<lparr>cmd_dq := dq'\<rparr>)
               }
               else Some c1);
       kpv \<leftarrow> row_at (rl_kp (params rl)) (int i);
       kp' \<leftarrow> vec_set (cmd_kp c2) i kpv;
       kdv \<leftarrow> row_at (rl_kd (params rl)) (int i);
       kd' \<leftarrow> vec_set (cmd_kd c2) i kdv;
       tau' \<leftarrow> vec_set (cmd_tau c2) i 0;
       Some (c2\<lparr>cmd_kp := kp', cmd_kd := kd', cmd_tau := tau'\<rparr>)
     }"

definition RL_Locomotion_run :: "RL \<Rightarrow> RobotCommand \<Rightarrow> (RL \<times> RobotCommand) option" where
  "RL_Locomotion_run rl c =
     (let rl0 = print (Info_RLController (control_x (control rl)) (control_y (control rl))
                                          (control_yaw (control rl))) rl
      in case try_pop (output_dof_pos_queue rl0) of
           None \<Rightarrow> Some (rl0, c)
         | Some (p, pos_rest) \<Rightarrow>
             let rl1 = rl0\<lparr>output_dof_pos_queue := pos_rest\<rparr>
             in case try_pop (output_dof_vel_queue rl1) of
                  None \<Rightarrow> Some (rl1, c)
                | Some (v, vel_rest) \<Rightarrow>
                    let rl2 = rl1\<lparr>output_dof_vel_queue := vel_rest\<rparr>
                    in do {
                      c' \<leftarrow> for_loop (nat (num_of_dofs (params rl2)))
                                       (RL_Locomotion_dof rl2 p v) c;
                      Some (rl2, c')
                    })"

definition RL_Locomotion_checkChange :: "RL \<Rightarrow> string" where
  "RL_Locomotion_checkChange rl =
     (if control_state (control rl) = STATE_POS_GETDOWN then ''RLFSMStateGetDown''
      else if control_state (control rl) = STATE_POS_GETUP then ''RLFSMStateGetUp''
      else if control_state (control rl) = STATE_RL_LOCOMOTION then ''RLFSMStateRL_Locomotion''
      else if control_state (control rl) = STATE_RL_NAVIGATION then ''RLFSMStateRL_Navigation''
      else if control_state (control rl) = STATE_WAITING then ''RLFSMStateWaiting''
      else stateName RLFSMStateRL_Locomotion)"

definition RL_Locomotion_exit :: "RL \<Rightarrow> RL" where
  "RL_Locomotion_exit rl = rl\<lparr>rl_init_done := False\<rparr>"

definition RL_Navigation_enter :: "Environment \<Rightarrow> RL \<Rightarrow> RL" where
  "RL_Navigation_enter env rl =
     (let rl1 = rl\<lparr>config_name := default_rl_config rl\<rparr>;
          robot_path = robot_name rl1 @ ''/'' @ config_name rl1
      in case InitRL env robot_path rl1 of
           Returns rl2 \<Rightarrow> rl2\<lparr>rl_init_done := True\<rparr>
         | Throws e rl2 \<Rightarrow>
             let rl3 = print (Error_InitRL_failed e) rl2;
                 rl4 = rl3\<lparr>rl_init_done := False\<rparr>
             in rl4\<lparr>control := (control rl4)\<lparr>control_state := STATE_POS_GETUP\<rparr>\<rparr>)"

definition RL_Navigation_dof :: "RL \<Rightarrow> tensor \<Rightarrow> tensor \<Rightarrow> nat \<Rightarrow> RobotCommand \<Rightarrow> RobotCommand option" where
  "RL_Navigation_dof rl p v i c =
     do {
       c1 \<leftarrow> (if defined p \<and> numel p > 0
               then do {
                 x \<leftarrow> tensor_at (output_dof_pos rl) (int i);
                 q' \<leftarrow> vec_set (cmd_q c) i x;
                 Some (c\<lparr>cmd_q := q'\<rparr>)
               }
               else Some c);
       c2 \<leftarrow> (if defined v \<and> numel v > 0
               then do {
                 x \<leftarrow> tensor_at (output_dof_vel rl) (int i);
                 dq' \<leftarrow> vec_set (cmd_dq c1) i x;
                 Some (c1\<lparr>cmd_dq := dq'\<rparr>)
               }
               else Some c1);
       kpv \<leftarrow> row_at (rl_kp (params rl)) (int i);
       kp' \<leftarrow> vec_set (cmd_kp c2) i kpv;
       kdv \<leftarrow> row_at (rl_kd (params rl)) (int i);
       kd' \<leftarrow> vec_set (cmd_kd c2) i kdv;
       tau' \<leftarrow> vec_set (cmd_tau c2) i 0;
       Some (c2\<lparr>cmd_kp := kp', cmd_kd := kd', cmd_tau := tau'\<rparr>)
     }"

definition RL_Navigation_run :: "RL \<Rightarrow> RobotCommand \<Rightarrow> (RL \<times> RobotCommand) option" where
  "RL_Navigation_run rl c =
     (let rl0 = print (Info_RLController (control_x (control rl)) (control_y (control rl))
                                          (control_yaw (control rl))) rl
      in case try_pop (output_dof_pos_queue rl0) of
           None \<Rightarrow> Some (rl0, c)
         | Some (p, pos_rest) \<Rightarrow>
             let rl1 = rl0\<lparr>output_dof_pos_queue := pos_rest\<rparr>
             in case try_pop (output_dof_vel_queue rl1) of
                  None \<Rightarrow> Some (rl1, c)
                | Some (v, vel_rest) \<Rightarrow>
                    let rl2 = rl1\<lparr>output_dof_vel_queue := vel_rest\<rparr>
                    in do {
                      c' \<leftarrow> for_loop (nat (num_of_dofs (params rl2)))
                                       (RL_Navigation_dof rl2 p v) c;
                      Some (rl2, c')
                    })"

definition RL_Navigation_checkChange :: "RL \<Rightarrow> string" where
  "RL_Navigation_checkChange rl =
     (if control_state (control rl) = STATE_POS_GETDOWN then ''RLFSMStateGetDown''
      else if control_state (control rl) = STATE_POS_GETUP then ''RLFSMStateGetUp''
      else if control_state (control rl) = STATE_RL_LOCOMOTION then ''RLFSMStateRL_Locomotion''
      else if control_state (control rl) = STATE_RL_NAVIGATION then ''RLFSMStateRL_Navigation''
      else if control_state (control rl) = STATE_WAITING then ''RLFSMStateWaiting''
      else stateName RLFSMStateRL_Navigation)"

definition RL_Navigation_exit :: "RL \<Rightarrow> RL" where
  "RL_Navigation_exit rl = rl\<lparr>rl_init_done := False\<rparr>"

subsection \<open>Virtual dispatch on the current state\<close>

fun enter :: "fsm_state \<Rightarrow> Environment \<Rightarrow> RobotState \<Rightarrow> RL \<Rightarrow> RL" where
  "enter RLFSMStateWaiting env fsm_state rl = Waiting_enter rl"
| "enter RLFSMStateGetUp env fsm_state rl = GetUp_enter fsm_state rl"
| "enter RLFSMStateGetDown env fsm_state rl = GetDown_enter fsm_state rl"
| "enter RLFSMStateRL_Locomotion env fsm_state rl = RL_Locomotion_enter env rl"
| "enter RLFSMStateRL_Navigation env fsm_state rl = RL_Navigation_enter env rl"

fun run :: "fsm_state \<Rightarrow> RobotState \<Rightarrow> RL \<Rightarrow> RobotCommand \<Rightarrow> (RL \<times> RobotCommand) option" where
  "run RLFSMStateWaiting fsm_state rl c = Waiting_run fsm_state rl c"
| "run RLFSMStateGetUp fsm_state rl c = GetUp_run rl c"
| "run RLFSMStateGetDown fsm_state rl c = GetDown_run rl c"
| "run RLFSMStateRL_Locomotion fsm_state rl c = RL_Locomotion_run rl c"
| "run RLFSMStateRL_Navigation fsm_state rl c = RL_Navigation_run rl c"

fun checkChange :: "fsm_state \<Rightarrow> RL \<Rightarrow> string" where
  "checkChange RLFSMStateWaiting rl = Waiting_checkChange rl"
| "checkChange RLFSMStateGetUp rl = GetUp_checkChange rl"
| "checkChange RLFSMStateGetDown rl = GetDown_checkChange rl"
| "checkChange RLFSMStateRL_Locomotion rl = RL_Locomotion_checkChange rl"
| "checkChange RLFSMStateRL_Navigation rl = RL_Navigation_checkChange rl"

fun exit :: "fsm_state \<Rightarrow> RL \<Rightarrow> RL" where
  "exit RLFSMStateWaiting rl = Waiting_exit rl"
| "exit RLFSMStateGetUp rl = GetUp_exit rl"
| "exit RLFSMStateGetDown rl = GetDown_exit rl"
| "exit RLFSMStateRL_Locomotion rl = RL_Locomotion_exit rl"
| "exit RLFSMStateRL_Navigation rl = RL_Navigation_exit rl"

section \<open>Observation assembly\<close>

definition QuatRotateInverse :: "real list \<Rightarrow> real list \<Rightarrow> string \<Rightarrow> real list option" where
  \<comment> \<open>\<open>q\<close> is a \<open>1 \<times> 4\<close> and \<open>v\<close> a \<open>1 \<times> 3\<close> row. \<open>q.index({Slice(), k})\<close> throws when
      column \<open>k\<close> is missing, a column slice is cut to the columns there are, and
      \<open>torch::cross\<close> and \<open>view({1, 1, 3})\<close> throw unless both operands have three columns.
      For any other framework \<open>q_w\<close> and \<open>q_vec\<close> stay undefined tensors, on which
      \<open>torch::pow\<close> throws.\<close>
  "QuatRotateInverse q v fw =
     do {
       (q_w, q_vec) \<leftarrow>
         (if fw = ''isaacsim'' then
            do { w \<leftarrow> row_at q 0; Some (w, take 3 (drop 1 q)) }
          else if fw = ''isaacgym'' then
            do { w \<leftarrow> row_at q 3; Some (w, take 3 q) }
          else None);
       (case (q_vec, v) of
          ([q0, q1, q2], [v0, v1, v2]) \<Rightarrow>
            let a = map (\<lambda>x. x * (2 * q_w ^ 2 - 1)) v;
                cross = [q1 * v2 - q2 * v1, q2 * v0 - q0 * v2, q0 * v1 - q1 * v0];
                b = map (\<lambda>x. x * q_w * 2) cross;
                dot = q0 * v0 + q1 * v1 + q2 * v2;
                c = map (\<lambda>x. x * dot * 2) q_vec
            in Some (map2 (+) (map2 (-) a b) c)
        | _ \<Rightarrow> None)
     }"

fun zero_wheels :: "int list \<Rightarrow> real list \<Rightarrow> real list option" where
  \<comment> \<open>\<open>for (int i : wheel_indices) dof_pos_rel[0][i] = 0.0;\<close>\<close>
  "zero_wheels [] r = Some r"
| "zero_wheels (i # is) r = (case row_set r i 0 of None \<Rightarrow> None | Some r' \<Rightarrow> zero_wheels is r')"

definition fmod :: "real \<Rightarrow> real \<Rightarrow> real" where
  \<comment> \<open>\<open>fmod(x, y)\<close> for \<open>y \<noteq> 0\<close>: the remainder of the quotient cut towards zero.\<close>
  "fmod x y = x - y * (if 0 \<le> x / y then of_int \<lfloor>x / y\<rfloor> else of_int \<lceil>x / y\<rceil>)"

definition observation_term :: "RL \<Rightarrow> string \<Rightarrow> real list list \<Rightarrow> real list list option" where
  \<comment> \<open>One pass of the loop body of \<open>ComputeObservation\<close>: the chain has no final
      \<open>else\<close>, so any other name leaves \<open>obs_list\<close> as it is.\<close>
  "observation_term rl observation obs_list =
     (if observation = ''lin_vel'' then
        Some (obs_list @ [map (\<lambda>x. x * lin_vel_scale (params rl)) (obs_lin_vel (obs rl))])
      else if observation = ''ang_vel_body'' then
        Some (obs_list @ [map (\<lambda>x. x * ang_vel_scale (params rl)) (obs_ang_vel (obs rl))])
      else if observation = ''ang_vel_world'' then
        do {
          r \<leftarrow> QuatRotateInverse (obs_base_quat (obs rl)) (obs_ang_vel (obs rl))
                                   (framework (params rl));
          Some (obs_list @ [map (\<lambda>x. x * ang_vel_scale (params rl)) r])
        }
      else if observation = ''gravity_vec'' then
        do {
          r \<leftarrow> QuatRotateInverse (obs_base_quat (obs rl)) (obs_gravity_vec (obs rl))
                                   (framework (params rl));
          Some (obs_list @ [r])
        }
      else if observation = ''commands'' then
        do {
          r \<leftarrow> row_op (*) (obs_commands (obs rl)) (commands_scale (params rl));
          Some (obs_list @ [r])
        }
      else if observation = ''dof_pos'' then
        do {
          dof_pos_rel \<leftarrow> row_op (-) (obs_dof_pos (obs rl)) (default_dof_pos (params rl));
          dof_pos_rel' \<leftarrow> zero_wheels (wheel_indices (params rl)) dof_pos_rel;
          Some (obs_list @ [map (\<lambda>x. x * dof_pos_scale (params rl)) dof_pos_rel'])
        }
      else if observation = ''dof_vel'' then
        Some (obs_list @ [map (\<lambda>x. x * dof_vel_scale (params rl)) (obs_dof_vel (obs rl))])
      else if observation = ''actions'' then
        Some (obs_list @ [obs_actions (obs rl)])
      else if observation = ''phase'' then
        (let phase = 31415926 / 10000000 * of_int (episode_length_buf rl) * dt (params rl)
                       * of_int (decimation (params rl)) / 2
         in Some (obs_list @ [[sin phase, cos phase, sin (phase / 2), cos (phase / 2),
                               sin (phase / 4), cos (phase / 4)]]))
      else if observation = ''g1_phase'' then
        (let period = 8 / 10;
             count = of_int (episode_length_buf rl) * dt (params rl)
                       * of_int (decimation (params rl));
             phase = fmod count period / period
         in Some (obs_list @ [[sin (2 * (31415926 / 10000000) * phase),
                               cos (2 * (31415926 / 10000000) * phase)]]))
      else Some obs_list)"

fun observation_loop :: "RL \<Rightarrow> string list \<Rightarrow> real list list \<Rightarrow> real list list option" where
  "observation_loop rl [] obs_list = Some obs_list"
| "observation_loop rl (observation # rest) obs_list =
     (case observation_term rl observation obs_list of
        None \<Rightarrow> None
      | Some obs_list' \<Rightarrow> observation_loop rl rest obs_list')"

definition cat1 :: "real list list \<Rightarrow> real list option" where
  \<comment> \<open>\<open>torch::cat(obs_list, 1)\<close> of rows; it throws on an empty list of tensors.\<close>
  "cat1 rows = (if rows = [] then None else Some (concat rows))"

definition ComputeObservation :: "RL \<Rightarrow> real list option" where
  "ComputeObservation rl =
     do {
       obs_list \<leftarrow> observation_loop rl (observations (params rl)) [];
       obs \<leftarrow> cat1 obs_list;
       Some (map (\<lambda>x. clamp x (- clip_obs (params rl)) (clip_obs (params rl))) obs)
     }"

section \<open>Action decoding\<close>

fun wheel_loop :: "real list \<Rightarrow> int list \<Rightarrow> real list \<times> real list \<Rightarrow> (real list \<times> real list) option" where
  \<comment> \<open>The loop over \<open>wheel_indices\<close> in \<open>ComputeOutput\<close>, on the pair
      \<open>(pos_actions_scaled, vel_actions_scaled)\<close>.\<close>
  "wheel_loop actions_scaled [] pv = Some pv"
| "wheel_loop actions_scaled (i # is) (pos, vel) =
     do {
       pos' \<leftarrow> row_set pos i 0;
       a \<leftarrow> row_at actions_scaled i;
       vel' \<leftarrow> row_set vel i a;
       wheel_loop actions_scaled is (pos', vel')
     }"

definition ComputeOutput :: "RL \<Rightarrow> real list \<Rightarrow> (real list \<times> real list \<times> real list) option" where
  \<comment> \<open>Returns the three tensors it assigns: \<open>(output_dof_pos, output_dof_vel, output_dof_tau)\<close>.\<close>
  "ComputeOutput rl actions =
     do {
       actions_scaled \<leftarrow> row_op (*) actions (action_scale (params rl));
       (pos_actions_scaled, vel_actions_scaled) \<leftarrow>
         wheel_loop actions_scaled (wheel_indices (params rl))
                    (actions_scaled, map (\<lambda>_. 0) actions);
       all_actions_scaled \<leftarrow> row_op (+) pos_actions_scaled vel_actions_scaled;
       output_dof_pos \<leftarrow> row_op (+) pos_actions_scaled (default_dof_pos (params rl));
       t1 \<leftarrow> row_op (+) all_actions_scaled (default_dof_pos (params rl));
       t2 \<leftarrow> row_op (-) t1 (obs_dof_pos (obs rl));
       t3 \<leftarrow> row_op (*) (rl_kp (params rl)) t2;
       t4 \<leftarrow> row_op (*) (rl_kd (params rl)) (obs_dof_vel (obs rl));
       t5 \<leftarrow> row_op (-) t3 t4;
       t6 \<leftarrow> row_op max t5 (map uminus (torque_limits (params rl)));
       output_dof_tau \<leftarrow> row_op min t6 (torque_limits (params rl));
       Some (output_dof_pos, vel_actions_scaled, output_dof_tau)
     }"

section \<open>Safety monitors\<close>

definition TorqueProtect_scan :: "RL \<Rightarrow> real list \<Rightarrow> nat \<Rightarrow> int list \<times> real list \<Rightarrow> (int list \<times> real list) option" where
  \<comment> \<open>Body of the first loop, on \<open>(out_of_range_indices, out_of_range_values)\<close>.\<close>
  "TorqueProtect_scan rl origin_output_dof_tau i rec =
     do {
       torque_value \<leftarrow> row_at origin_output_dof_tau (int i);
       limit \<leftarrow> row_at (torque_limits (params rl)) (int i);
       let limit_lower = - limit; limit_upper = limit in
       Some (if torque_value < limit_lower \<or> torque_value > limit_upper
             then (fst rec @ [int i], snd rec @ [torque_value])
             else rec)
     }"

definition TorqueProtect_warn :: "int list \<times> real list \<Rightarrow> nat \<Rightarrow> RL \<Rightarrow> RL option" where
  \<comment> \<open>Body of the second loop.\<close>
  "TorqueProtect_warn rec i rl =
     do {
       index \<leftarrow> vec_at (fst rec) i;
       value \<leftarrow> vec_at (snd rec) i;
       limit \<leftarrow> row_at (torque_limits (params rl)) index;
       Some (print (Warning_Torque (index + 1) value (- limit) limit) rl)
     }"

definition TorqueProtect :: "real list \<Rightarrow> RL \<Rightarrow> RL option" where
  "TorqueProtect origin_output_dof_tau rl =
     do {
       rec \<leftarrow> for_loop (length origin_output_dof_tau)
                        (TorqueProtect_scan rl origin_output_dof_tau) ([], []);
       (if fst rec \<noteq> [] then for_loop (length (fst rec)) (TorqueProtect_warn rec) rl
        else Some rl)
     }"

definition atan2 :: "real \<Rightarrow> real \<Rightarrow> real" where
  \<comment> \<open>\<open>std::atan2(y, x)\<close>\<close>
  "atan2 y x =
     (if x > 0 then arctan (y / x)
      else if x < 0 then (if y \<ge> 0 then arctan (y / x) + pi else arctan (y / x) - pi)
      else if y > 0 then pi / 2
      else if y < 0 then - pi / 2
      else 0)"

definition copysign :: "real \<Rightarrow> real \<Rightarrow> real" where
  "copysign a b = (if b < 0 then - \<bar>a\<bar> else \<bar>a\<bar>)"

definition AttitudeProtect :: "real list \<Rightarrow> real \<Rightarrow> real \<Rightarrow> RL \<Rightarrow> RL option" where
  \<comment> \<open>For any other framework the locals \<open>w, x, y, z\<close> are read without ever having been
      assigned.\<close>
  "AttitudeProtect quaternion pitch_threshold roll_threshold rl =
     (let rad2deg = 572958 / 10000 in
      do {
        (w, x, y, z) \<leftarrow>
          (if framework (params rl) = ''isaacgym'' then
             do {
               w \<leftarrow> vec_at quaternion 3;
               x \<leftarrow> vec_at quaternion 0;
               y \<leftarrow> vec_at quaternion 1;
               z \<leftarrow> vec_at quaternion 2;
               Some (w, x, y, z)
             }
           else if framework (params rl) = ''isaacsim'' then
             do {
               w \<leftarrow> vec_at quaternion 0;
               x \<leftarrow> vec_at quaternion 1;
               y \<leftarrow> vec_at quaternion 2;
               z \<leftarrow> vec_at quaternion 3;
               Some (w, x, y, z)
             }
           else None);
        let sinr_cosp = 2 * (w * x + y * z);
            cosr_cosp = 1 - 2 * (x * x + y * y);
            roll = atan2 sinr_cosp cosr_cosp * rad2deg;
            sinp = 2 * (w * y - z * x);
            pitch = (if \<bar>sinp\<bar> \<ge> 1 then copysign 90 sinp else arcsin sinp * rad2deg);
            rl1 = (if \<bar>roll\<bar> > roll_threshold then print (Warning_Roll roll_threshold roll) rl
                   else rl);
            rl2 = (if \<bar>pitch\<bar> > pitch_threshold
                   then print (Warning_Pitch pitch_threshold pitch) rl1 else rl1)
        in Some rl2
      })"

section \<open>Sequences of calls\<close>

text \<open>
  The driver that calls the four methods of the current state (\<open>fsm.run()\<close>) is not in the
  two source files, so no calling order is fixed here: a history of the controller is any
  list of calls of \<open>enter\<close>, \<open>run\<close> and \<open>exit\<close>, each \<open>enter\<close> and \<open>run\<close> with the
  robot state that \<open>fsm_state\<close> points to at that call. \<open>checkChange\<close> changes nothing
  and is left out of histories.
\<close>

datatype call = Enter fsm_state RobotState | Run fsm_state RobotState | Exit fsm_state

fun is_Enter :: "call \<Rightarrow> bool" where
  "is_Enter (Enter st r) = True"
| "is_Enter (Run st r) = False"
| "is_Enter (Exit st) = False"

fun call_step :: "Environment \<Rightarrow> call \<Rightarrow> RL \<times> RobotCommand \<Rightarrow> (RL \<times> RobotCommand) option" where
  "call_step env (Enter st r) (rl, c) = Some (enter st env r rl, c)"
| "call_step env (Run st r) (rl, c) = run st r rl c"
| "call_step env (Exit st) (rl, c) = Some (exit st rl, c)"

fun calls :: "Environment \<Rightarrow> call list \<Rightarrow> RL \<times> RobotCommand \<Rightarrow> (RL \<times> RobotCommand) option" where
  "calls env [] s = Some s"
| "calls env (x # xs) s = (case call_step env x s of None \<Rightarrow> None | Some s' \<Rightarrow> calls env xs s')"

fun last_GetUp_entry :: "call list \<Rightarrow> RobotState \<Rightarrow> RobotState" where
  \<comment> \<open>The robot state at the most recent entry of \<open>RLFSMStateGetUp\<close> in a history, or the
      given one when the history has none.\<close>
  "last_GetUp_entry [] r0 = r0"
| "last_GetUp_entry (Enter RLFSMStateGetUp r # xs) r0 = last_GetUp_entry xs r"
| "last_GetUp_entry (x # xs) r0 = last_GetUp_entry xs r0"

section \<open>The specification's wording\<close>

text \<open>
  The definitions of this section are written from the specification, not from the code;
  the theorems compare them with the code.
\<close>

definition mode_of_request :: "STATE \<Rightarrow> fsm_state option" where
  \<comment> \<open>The behaviour mode a requested-mode flag names, if it names one.\<close>
  "mode_of_request req =
     (case req of
        STATE_WAITING \<Rightarrow> Some RLFSMStateWaiting
      | STATE_POS_GETUP \<Rightarrow> Some RLFSMStateGetUp
      | STATE_POS_GETDOWN \<Rightarrow> Some RLFSMStateGetDown
      | STATE_RL_LOCOMOTION \<Rightarrow> Some RLFSMStateRL_Locomotion
      | STATE_RL_NAVIGATION \<Rightarrow> Some RLFSMStateRL_Navigation
      | _ \<Rightarrow> None)"

fun table_next :: "fsm_state \<Rightarrow> real \<Rightarrow> STATE \<Rightarrow> fsm_state" where
  \<comment> \<open>The transition table of the specification (Idle is \<open>RLFSMStateWaiting\<close>, StandUp is
      \<open>RLFSMStateGetUp\<close>, SitDown is \<open>RLFSMStateGetDown\<close>).\<close>
  "table_next RLFSMStateWaiting progress req =
     (if req = STATE_POS_GETUP then RLFSMStateGetUp else RLFSMStateWaiting)"
| "table_next RLFSMStateGetUp progress req =
     (if progress \<ge> 1 then
        (case req of
           STATE_RL_LOCOMOTION \<Rightarrow> RLFSMStateRL_Locomotion
         | STATE_RL_NAVIGATION \<Rightarrow> RLFSMStateRL_Navigation
         | STATE_POS_GETDOWN \<Rightarrow> RLFSMStateGetDown
         | STATE_WAITING \<Rightarrow> RLFSMStateWaiting
         | _ \<Rightarrow> RLFSMStateGetUp)
      else RLFSMStateGetUp)"
| "table_next RLFSMStateGetDown progress req =
     (if progress \<ge> 1 then RLFSMStateWaiting
      else if req = STATE_POS_GETUP then RLFSMStateGetUp
      else RLFSMStateGetDown)"
| "table_next RLFSMStateRL_Locomotion progress req =
     (case mode_of_request req of Some m \<Rightarrow> m | None \<Rightarrow> RLFSMStateRL_Locomotion)"
| "table_next RLFSMStateRL_Navigation progress req =
     (case mode_of_request req of Some m \<Rightarrow> m | None \<Rightarrow> RLFSMStateRL_Navigation)"

definition available :: "tensor list \<Rightarrow> real list option" where
  \<comment> \<open>The new value a hand-off queue has for this tick: its oldest element, unless the queue
      is empty or that element is an absent or empty tensor.\<close>
  "available queue =
     (case try_pop queue of
        None \<Rightarrow> None
      | Some (t, rest) \<Rightarrow> (case t of None \<Rightarrow> None | Some r \<Rightarrow> if r = [] then None else Some r))"

definition per_field_dof :: "RL \<Rightarrow> real list option \<Rightarrow> real list option \<Rightarrow> nat \<Rightarrow> RobotCommand \<Rightarrow> RobotCommand option" where
  "per_field_dof rl pos vel i c =
     do {
       c1 \<leftarrow> (case pos of
                 None \<Rightarrow> Some c
               | Some r \<Rightarrow> do { x \<leftarrow> row_at r (int i); q' \<leftarrow> vec_set (cmd_q c) i x;
                                Some (c\<lparr>cmd_q := q'\<rparr>) });
       c2 \<leftarrow> (case vel of
                 None \<Rightarrow> Some c1
               | Some r \<Rightarrow> do { x \<leftarrow> row_at r (int i); dq' \<leftarrow> vec_set (cmd_dq c1) i x;
                                Some (c1\<lparr>cmd_dq := dq'\<rparr>) });
       kpv \<leftarrow> row_at (rl_kp (params rl)) (int i);
       kp' \<leftarrow> vec_set (cmd_kp c2) i kpv;
       kdv \<leftarrow> row_at (rl_kd (params rl)) (int i);
       kd' \<leftarrow> vec_set (cmd_kd c2) i kdv;
       tau' \<leftarrow> vec_set (cmd_tau c2) i 0;
       Some (c2\<lparr>cmd_kp := kp', cmd_kd := kd', cmd_tau := tau'\<rparr>)
     }"

definition per_field_hold_last_tick :: "RL \<Rightarrow> RobotCommand \<Rightarrow> RobotCommand option" where
  \<comment> \<open>The learned-mode tick as the specification words it: each field is overwritten where
      its queue had a new value this tick and held otherwise, with the gains and the torque
      written in every case.\<close>
  "per_field_hold_last_tick rl c =
     for_loop (nat (num_of_dofs (params rl)))
       (per_field_dof rl (available (output_dof_pos_queue rl))
                         (available (output_dof_vel_queue rl))) c"

definition recognized_terms :: "string list" where
  "recognized_terms =
     [''lin_vel'', ''ang_vel_body'', ''ang_vel_world'', ''gravity_vec'', ''commands'',
      ''dof_pos'', ''dof_vel'', ''actions'', ''phase'', ''g1_phase'']"

type_synonym vec3 = "real \<times> real \<times> real"

fun cross3 :: "vec3 \<Rightarrow> vec3 \<Rightarrow> vec3" where
  "cross3 (a0, a1, a2) (b0, b1, b2) = (a1 * b2 - a2 * b1, a2 * b0 - a0 * b2, a0 * b1 - a1 * b0)"

fun dot3 :: "vec3 \<Rightarrow> vec3 \<Rightarrow> real" where
  "dot3 (a0, a1, a2) (b0, b1, b2) = a0 * b0 + a1 * b1 + a2 * b2"

fun scale3 :: "real \<Rightarrow> vec3 \<Rightarrow> vec3" where
  "scale3 k (a0, a1, a2) = (k * a0, k * a1, k * a2)"

fun add3 :: "vec3 \<Rightarrow> vec3 \<Rightarrow> vec3" where
  "add3 (a0, a1, a2) (b0, b1, b2) = (a0 + b0, a1 + b1, a2 + b2)"

fun sub3 :: "vec3 \<Rightarrow> vec3 \<Rightarrow> vec3" where
  "sub3 (a0, a1, a2) (b0, b1, b2) = (a0 - b0, a1 - b1, a2 - b2)"

fun row3 :: "vec3 \<Rightarrow> real list" where
  "row3 (a0, a1, a2) = [a0, a1, a2]"

definition inverse_rotation_formula :: "real \<Rightarrow> vec3 \<Rightarrow> vec3 \<Rightarrow> vec3" where
  \<comment> \<open>\<open>out = v (2 w\<^sup>2 - 1) - 2 w (q_vec \<times> v) + 2 q_vec (q_vec \<cdot> v)\<close>\<close>
  "inverse_rotation_formula w q_vec v =
     add3 (sub3 (scale3 (2 * w\<^sup>2 - 1) v) (scale3 (2 * w) (cross3 q_vec v)))
          (scale3 (2 * dot3 q_vec v) q_vec)"

definition lerp :: "real \<Rightarrow> real \<Rightarrow> real \<Rightarrow> real" where
  "lerp a b t = (1 - t) * a + t * b"

definition exceeds :: "real list \<Rightarrow> real list \<Rightarrow> nat \<Rightarrow> bool" where
  \<comment> \<open>Joint \<open>i\<close> has a torque of magnitude above its limit.\<close>
  "exceeds tau limits i \<longleftrightarrow> \<bar>tau ! i\<bar> > limits ! i"

definition roll_degrees :: "real \<Rightarrow> real \<Rightarrow> real \<Rightarrow> real \<Rightarrow> real" where
  \<comment> \<open>\<open>roll = atan2(2(wx + yz), 1 - 2(x\<^sup>2 + y\<^sup>2))\<close>, times the constant 57.2958.\<close>
  "roll_degrees w x y z = atan2 (2 * (w * x + y * z)) (1 - 2 * (x\<^sup>2 + y\<^sup>2)) * (572958 / 10000)"

definition pitch_degrees :: "real \<Rightarrow> real \<Rightarrow> real \<Rightarrow> real \<Rightarrow> real" where
  \<comment> \<open>\<open>pitch = asin(2(wy - zx))\<close> times the constant 57.2958, saturated at 90 degrees
      either way where the argument leaves the open interval from -1 to 1.\<close>
  "pitch_degrees w x y z =
     (if 2 * (w * y - z * x) \<ge> 1 then 90
      else if 2 * (w * y - z * x) \<le> - 1 then - 90
      else arcsin (2 * (w * y - z * x)) * (572958 / 10000))"

definition attitude_warnings :: "real \<Rightarrow> real \<Rightarrow> real \<Rightarrow> real \<Rightarrow> message list" where
  "attitude_warnings roll_threshold pitch_threshold roll pitch =
     (if \<bar>roll\<bar> > roll_threshold then [Warning_Roll roll_threshold roll] else []) @
     (if \<bar>pitch\<bar> > pitch_threshold then [Warning_Pitch pitch_threshold pitch] else [])"

definition torque_warnings :: "real list \<Rightarrow> real list \<Rightarrow> message list" where
  \<comment> \<open>One warning, with the joint's number counted from 1, its torque and its two bounds,
      for each joint whose torque exceeds its limit in magnitude, in the order of the
      joints.\<close>
  "torque_warnings tau limits =
     map (\<lambda>i. Warning_Torque (int i + 1) (tau ! i) (- limits ! i) (limits ! i))
         (filter (exceeds tau limits) [0..<length tau])"

section \<open>A two-joint robot\<close>

definition go2_params :: ModelParams where
  "go2_params =
     \<lparr>model_name = ''policy.pt'', framework = ''isaacgym'', dt = 1 / 500, decimation = 4,
      num_observations = 3, observations = [''commands''], observations_history = [],
      clip_obs = 100, clip_actions_upper = [], clip_actions_lower = [],
      action_scale = [1 / 4, 1 / 4], wheel_indices = [1], num_of_dofs = 2,
      lin_vel_scale = 2, ang_vel_scale = 1 / 4, dof_pos_scale = 1, dof_vel_scale = 1 / 20,
      commands_scale = [2, 2, 1 / 4], rl_kp = [20, 20], rl_kd = [1 / 2, 1 / 2],
      fixed_kp = [80, 80], fixed_kd = [3, 3], torque_limits = [10, 10],
      default_dof_pos = [0, 0], joint_controller_names = [''hip'', ''wheel''],
      command_mapping = [0, 1], state_mapping = [0, 1]\<rparr>"

definition go2_state :: RobotState where
  "go2_state =
     \<lparr>imu_quaternion = [0, 0, 0, 1], imu_gyroscope = [0, 0, 0],
      st_q = [1 / 2, - 3 / 10], st_dq = [0, 0], st_tau_est = [0, 0]\<rparr>"

definition go2_command :: RobotCommand where
  "go2_command = \<lparr>cmd_q = [0, 0], cmd_dq = [0, 0], cmd_kp = [0, 0], cmd_kd = [0, 0], cmd_tau = [0, 0]\<rparr>"

definition go2_obs :: Observations where
  "go2_obs =
     \<lparr>obs_lin_vel = [0, 0, 0], obs_ang_vel = [0, 0, 0], obs_gravity_vec = [0, 0, - 1],
      obs_commands = [0, 0, 0], obs_base_quat = [0, 0, 0, 1], obs_dof_pos = [1 / 2, - 3 / 10],
      obs_dof_vel = [0, 2], obs_actions = [0, 0]\<rparr>"

definition go2_rl :: RL where
  "go2_rl =
     \<lparr>running_percent = 0,
      control = \<lparr>control_state = STATE_RL_LOCOMOTION, control_x = 0, control_y = 0, control_yaw = 0\<rparr>,
      now_state = go2_state, start_state = go2_state, rl_init_done = False,
      is_simulation = False, robot_name = ''go2'', config_name = [],
      default_rl_config = ''himloco'', params = go2_params, obs = go2_obs,
      episode_length_buf = 0, history_obs_buf = None, model = None,
      output_dof_pos = Some [1, 1], output_dof_vel = Some [0, 3], output_dof_tau = Some [0, 0],
      output_dof_pos_queue = [], output_dof_vel_queue = [], output_dof_tau_queue = [],
      robot_state = go2_state, robot_command = go2_command, console = []\<rparr>"

definition no_files :: Environment where
  \<comment> \<open>Neither the profile nor the policy file exists.\<close>
  "no_files = \<lparr>source_dir = ''/rl_sar'', yaml_file = (\<lambda>path key. YamlBadFile), jit_load = (\<lambda>path. False)\<rparr>"

definition foo_files :: Environment where
  \<comment> \<open>Every profile lists the observation terms \<open>commands\<close> and \<open>foo\<close>; every policy file
      loads.\<close>
  "foo_files =
     \<lparr>source_dir = ''/rl_sar'',
      yaml_file = (\<lambda>path key. YamlParsed (go2_params\<lparr>observations := [''commands'', ''foo'']\<rparr>)),
      jit_load = (\<lambda>path. True)\<rparr>"

definition position_only :: RL where
  \<comment> \<open>The two-joint robot with a decoded position waiting and no decoded velocity.\<close>
  "position_only = go2_rl\<lparr>output_dof_pos_queue := [Some [1, 1]]\<rparr>"

definition fed :: RL where
  \<comment> \<open>The two-joint robot with a decoded position and a decoded velocity waiting.\<close>
  "fed = go2_rl\<lparr>output_dof_pos_queue := [Some [1, 1]], output_dof_vel_queue := [Some [0, 3]]\<rparr>"

definition standing :: RobotState where
  \<comment> \<open>The two-joint robot measured at its default pose.\<close>
  "standing = go2_state\<lparr>st_q := [0, 0]\<rparr>"

definition other_framework :: RL where
  \<comment> \<open>The two-joint robot with a framework name that is neither of the two the code tests
      for.\<close>
  "other_framework = go2_rl\<lparr>params := go2_params\<lparr>framework := ''mujoco''\<rparr>\<rparr>"

definition lying :: RobotState where
  \<comment> \<open>The two-joint robot measured lying down.\<close>
  "lying = go2_state\<lparr>st_q := [1, - 1]\<rparr>"

definition profile_missing :: Environment where
  \<comment> \<open>No profile exists; every policy file loads.\<close>
  "profile_missing =
     \<lparr>source_dir = ''/rl_sar'', yaml_file = (\<lambda>path key. YamlBadFile), jit_load = (\<lambda>path. True)\<rparr>"

definition policy_missing :: Environment where
  \<comment> \<open>Every profile is that of the two-joint robot; no policy file loads.\<close>
  "policy_missing =
     \<lparr>source_dir = ''/rl_sar'', yaml_file = (\<lambda>path key. YamlParsed go2_params),
      jit_load = (\<lambda>path. False)\<rparr>"

section \<open>Closed forms of the loops over the joints\<close>

definition overwrite :: "nat \<Rightarrow> 'a list \<Rightarrow> 'a list \<Rightarrow> 'a list" where
  \<comment> \<open>\<open>old\<close> with its first \<open>n\<close> entries replaced by those of \<open>new\<close>.\<close>
  "overwrite n new old = take n new @ drop n old"

definition row_of :: "tensor \<Rightarrow> real list" where
  "row_of t = (case t of None \<Rightarrow> [] | Some r \<Rightarrow> r)"

definition ramp_step :: "real \<Rightarrow> real" where
  \<comment> \<open>What one tick of a ramp makes of a progress counter below 1: the two lines
      \<open>running_percent += 1.0f / 500.0f\<close> and \<open>running_percent = std::min(running_percent, 1.0f)\<close>.\<close>
  "ramp_step p = min (float32 (p + float32 (1 / 500))) 1"

definition GetUp_fits :: "RL \<Rightarrow> RobotCommand \<Rightarrow> nat \<Rightarrow> bool" where
  \<comment> \<open>Every vector and row that \<open>n\<close> passes of the loop of \<open>RLFSMStateGetUp::run\<close> index
      has at least \<open>n\<close> entries.\<close>
  "GetUp_fits rl c n \<longleftrightarrow>
     n \<le> length (st_q (now_state rl)) \<and> n \<le> length (default_dof_pos (params rl)) \<and>
     n \<le> length (fixed_kp (params rl)) \<and> n \<le> length (fixed_kd (params rl)) \<and>
     n \<le> length (cmd_q c) \<and> n \<le> length (cmd_dq c) \<and> n \<le> length (cmd_kp c) \<and>
     n \<le> length (cmd_kd c) \<and> n \<le> length (cmd_tau c)"

definition GetUp_written :: "RL \<Rightarrow> RobotCommand \<Rightarrow> nat \<Rightarrow> RobotCommand" where
  "GetUp_written rl c n =
     c\<lparr>cmd_q := overwrite n (map2 (\<lambda>a b. lerp a b (running_percent rl))
                               (st_q (now_state rl)) (default_dof_pos (params rl))) (cmd_q c),
       cmd_dq := overwrite n (replicate (length (cmd_dq c)) 0) (cmd_dq c),
       cmd_kp := overwrite n (fixed_kp (params rl)) (cmd_kp c),
       cmd_kd := overwrite n (fixed_kd (params rl)) (cmd_kd c),
       cmd_tau := overwrite n (replicate (length (cmd_tau c)) 0) (cmd_tau c)\<rparr>"

definition GetDown_fits :: "RL \<Rightarrow> RobotCommand \<Rightarrow> nat \<Rightarrow> bool" where
  \<comment> \<open>Every vector and row that \<open>n\<close> passes of the loop of \<open>RLFSMStateGetDown::run\<close> index
      has at least \<open>n\<close> entries.\<close>
  "GetDown_fits rl c n \<longleftrightarrow>
     n \<le> length (st_q (now_state rl)) \<and> n \<le> length (st_q (start_state rl)) \<and>
     n \<le> length (fixed_kp (params rl)) \<and> n \<le> length (fixed_kd (params rl)) \<and>
     n \<le> length (cmd_q c) \<and> n \<le> length (cmd_dq c) \<and> n \<le> length (cmd_kp c) \<and>
     n \<le> length (cmd_kd c) \<and> n \<le> length (cmd_tau c)"

definition GetDown_written :: "RL \<Rightarrow> RobotCommand \<Rightarrow> nat \<Rightarrow> RobotCommand" where
  "GetDown_written rl c n =
     c\<lparr>cmd_q := overwrite n (map2 (\<lambda>a b. lerp a b (running_percent rl))
                               (st_q (now_state rl)) (st_q (start_state rl))) (cmd_q c),
       cmd_dq := overwrite n (replicate (length (cmd_dq c)) 0) (cmd_dq c),
       cmd_kp := overwrite n (fixed_kp (params rl)) (cmd_kp c),
       cmd_kd := overwrite n (fixed_kd (params rl)) (cmd_kd c),
       cmd_tau := overwrite n (replicate (length (cmd_tau c)) 0) (cmd_tau c)\<rparr>"

definition ramp_fits :: "fsm_state \<Rightarrow> RL \<Rightarrow> RobotCommand \<Rightarrow> bool" where
  \<comment> \<open>The vectors and rows that a tick of \<open>RLFSMStateGetUp\<close> (or else of
      \<open>RLFSMStateGetDown\<close>) indexes have an entry for every joint below \<open>num_of_dofs\<close>.\<close>
  "ramp_fits st rl c =
     (if st = RLFSMStateGetUp then GetUp_fits rl c (nat (num_of_dofs (params rl)))
      else GetDown_fits rl c (nat (num_of_dofs (params rl))))"

definition fresh :: "tensor \<Rightarrow> bool" where
  \<comment> \<open>The test \<open>t.defined() && t.numel() > 0\<close> of the learned-mode tick.\<close>
  "fresh t \<longleftrightarrow> defined t \<and> numel t > 0"

definition RL_fits :: "RL \<Rightarrow> tensor \<Rightarrow> tensor \<Rightarrow> RobotCommand \<Rightarrow> nat \<Rightarrow> bool" where
  \<comment> \<open>Every vector and row that \<open>n\<close> passes of the loop of the learned-mode tick index has
      at least \<open>n\<close> entries.\<close>
  "RL_fits rl p v c n \<longleftrightarrow>
     (if fresh p then n \<le> numel (output_dof_pos rl) \<and> n \<le> length (cmd_q c) else True) \<and>
     (if fresh v then n \<le> numel (output_dof_vel rl) \<and> n \<le> length (cmd_dq c) else True) \<and>
     n \<le> length (rl_kp (params rl)) \<and> n \<le> length (rl_kd (params rl)) \<and>
     n \<le> length (cmd_kp c) \<and> n \<le> length (cmd_kd c) \<and> n \<le> length (cmd_tau c)"

definition RL_written :: "RL \<Rightarrow> tensor \<Rightarrow> tensor \<Rightarrow> RobotCommand \<Rightarrow> nat \<Rightarrow> RobotCommand" where
  "RL_written rl p v c n =
     c\<lparr>cmd_q := (if fresh p then overwrite n (row_of (output_dof_pos rl)) (cmd_q c) else cmd_q c),
       cmd_dq := (if fresh v then overwrite n (row_of (output_dof_vel rl)) (cmd_dq c) else cmd_dq c),
       cmd_kp := overwrite n (rl_kp (params rl)) (cmd_kp c),
       cmd_kd := overwrite n (rl_kd (params rl)) (cmd_kd c),
       cmd_tau := overwrite n (replicate (length (cmd_tau c)) 0) (cmd_tau c)\<rparr>"

definition on_the_ramp :: "RL \<Rightarrow> RobotCommand \<Rightarrow> bool" where
  \<comment> \<open>Every commanded joint position is the interpolation from \<open>now_state\<close> to
      \<open>start_state\<close> at the current progress.\<close>
  "on_the_ramp rl c \<longleftrightarrow>
     list_all (\<lambda>i. cmd_q c ! i = lerp (st_q (now_state rl) ! i) (st_q (start_state rl) ! i)
                                     (running_percent rl))
       [0..<nat (num_of_dofs (params rl))]"

section \<open>Vectors, rows and loops: basic facts\<close>

lemma row_at_nat: "row_at t (int i) = (if i < length t then Some (t ! i) else None)"
  by (simp add: row_at_def row_index_def)

lemma tensor_at_nat: "tensor_at t (int i) = (if i < numel t then Some (row_of t ! i) else None)"
  by (cases t) (simp_all add: tensor_at_def numel_def row_of_def row_at_nat)

lemma length_row_of: "length (row_of t) = numel t"
  by (cases t) (simp_all add: numel_def row_of_def)

lemma overwrite_0: "overwrite 0 new old = old"
  by (simp add: overwrite_def)

lemma length_overwrite:
  "n \<le> length new \<Longrightarrow> n \<le> length old \<Longrightarrow> length (overwrite n new old) = length old"
  by (simp add: overwrite_def)

lemma overwrite_Suc:
  assumes "n < length new" "n < length old"
  shows "(overwrite n new old)[n := new ! n] = overwrite (Suc n) new old"
proof -
  have "(take n new @ drop n old)[n := new ! n] = take n new @ (drop n old)[0 := new ! n]"
    using assms by (simp add: list_update_append)
  also have "(drop n old)[0 := new ! n] = new ! n # drop (Suc n) old"
    using assms by (metis Cons_nth_drop_Suc list_update_code(2))
  also have "take n new @ new ! n # drop (Suc n) old = take (Suc n) new @ drop (Suc n) old"
    using assms by (simp add: take_Suc_conv_app_nth)
  finally show ?thesis by (simp add: overwrite_def)
qed

lemma overwrite_nth:
  "n \<le> length new \<Longrightarrow> n \<le> length old \<Longrightarrow>
     overwrite n new old ! i = (if i < n then new ! i else old ! i)"
  by (auto simp: overwrite_def nth_append min_def)

section \<open>Rounding to \<open>float\<close>\<close>

lemma pow2_powr: "pow2 k = 2 powr of_int k"
proof (cases "0 \<le> k")
  case True
  then show ?thesis by (simp add: pow2_def powr_realpow[symmetric])
next
  case False
  then have "(2::real) powr of_int k = 1 / 2 powr of_int (- k)"
    by (simp add: powr_minus_divide[symmetric])
  also have "(2::real) powr of_int (- k) = 2 ^ nat (- k)"
    using False by (simp add: powr_realpow[symmetric])
  finally show ?thesis using False by (simp add: pow2_def)
qed

lemma pow2_pos: "0 < pow2 k"
  by (simp add: pow2_powr)

lemma float32_eval:
  assumes "pow2 k \<le> x" "x < pow2 (k + 1)" "- 126 \<le> k"
  shows "float32 x = pow2 (k - 23) * of_int (round_half_even (x / pow2 (k - 23)))"
proof -
  have pos: "0 < x" using assms(1) pow2_pos[of k] by linarith
  have "\<lfloor>log 2 x\<rfloor> = k"
    using assms(1,2) pos by (simp add: floor_log_eq_powr_iff pow2_powr)
  with pos assms(3) show ?thesis by (simp add: float32_def Let_def max_def)
qed

lemma round_half_even_error: "\<bar>of_int (round_half_even r) - r\<bar> \<le> 1 / 2"
  unfolding round_half_even_def Let_def by (auto; linarith)

lemma float32_error:
  assumes "0 < x" "x < 2"
  shows "\<bar>float32 x - x\<bar> \<le> 1 / 2 ^ 24"
proof -
  define e where "e = max \<lfloor>log 2 \<bar>x\<bar>\<rfloor> (- 126)"
  define u where "u = pow2 (e - 23)"
  have "log 2 x < 1" using assms by (simp add: log_less_iff)
  then have "\<lfloor>log 2 x\<rfloor> \<le> 0" by (simp add: floor_le_iff)
  then have e: "e \<le> 0" using assms by (simp add: e_def)
  have upos: "0 < u" by (simp add: u_def pow2_pos)
  have "u = 2 powr of_int (e - 23)" by (simp add: u_def pow2_powr)
  also have "\<dots> \<le> 2 powr of_int (- 23)" using e by (simp del: of_int_diff)
  also have "\<dots> = 1 / 2 ^ 23" by (simp add: powr_minus_divide)
  finally have u: "u \<le> 1 / 2 ^ 23" .
  have f: "float32 x = u * of_int (round_half_even (x / u))"
    using assms by (simp add: float32_def Let_def e_def u_def)
  have "float32 x - x = u * (of_int (round_half_even (x / u)) - x / u)"
    unfolding f using upos by (simp add: right_diff_distrib)
  then have "\<bar>float32 x - x\<bar> = u * \<bar>of_int (round_half_even (x / u)) - x / u\<bar>"
    using upos by (simp add: abs_mult)
  also have "\<dots> \<le> u * (1 / 2)"
    using round_half_even_error[of "x / u"] upos by (intro mult_left_mono) simp_all
  also have "\<dots> \<le> 1 / 2 ^ 23 * (1 / 2)" using u by simp
  finally show ?thesis by simp
qed

text \<open>The step of the ramps, \<open>1.0f / 500.0f\<close>, is a little more than 1/500.\<close>

lemma step32: "float32 (1 / 500) = 8589935 / 4294967296"
  using float32_eval[of "- 9" "1 / 500"] by (simp add: pow2_def round_half_even_def)

text \<open>Rounding in each of the binades between \<open>2\<^sup>-\<^sup>9\<close> and 2, for evaluation.\<close>

lemma float32_bin:
  "1 / 512 \<le> x \<Longrightarrow> x < 1 / 256 \<Longrightarrow>
     float32 x = of_int (round_half_even (x * 4294967296)) / 4294967296"
  "1 / 256 \<le> x \<Longrightarrow> x < 1 / 128 \<Longrightarrow>
     float32 x = of_int (round_half_even (x * 2147483648)) / 2147483648"
  "1 / 128 \<le> x \<Longrightarrow> x < 1 / 64 \<Longrightarrow>
     float32 x = of_int (round_half_even (x * 1073741824)) / 1073741824"
  "1 / 64 \<le> x \<Longrightarrow> x < 1 / 32 \<Longrightarrow>
     float32 x = of_int (round_half_even (x * 536870912)) / 536870912"
  "1 / 32 \<le> x \<Longrightarrow> x < 1 / 16 \<Longrightarrow>
     float32 x = of_int (round_half_even (x * 268435456)) / 268435456"
  "1 / 16 \<le> x \<Longrightarrow> x < 1 / 8 \<Longrightarrow>
     float32 x = of_int (round_half_even (x * 134217728)) / 134217728"
  "1 / 8 \<le> x \<Longrightarrow> x < 1 / 4 \<Longrightarrow>
     float32 x = of_int (round_half_even (x * 67108864)) / 67108864"
  "1 / 4 \<le> x \<Longrightarrow> x < 1 / 2 \<Longrightarrow>
     float32 x = of_int (round_half_even (x * 33554432)) / 33554432"
  "1 / 2 \<le> x \<Longrightarrow> x < 1 \<Longrightarrow>
     float32 x = of_int (round_half_even (x * 16777216)) / 16777216"
  "1 \<le> x \<Longrightarrow> x < 2 \<Longrightarrow>
     float32 x = of_int (round_half_even (x * 8388608)) / 8388608"
  using
    float32_eval[of "- 9" x]
    float32_eval[of "- 8" x]
    float32_eval[of "- 7" x]
    float32_eval[of "- 6" x]
    float32_eval[of "- 5" x]
    float32_eval[of "- 4" x]
    float32_eval[of "- 3" x]
    float32_eval[of "- 2" x]
    float32_eval[of "- 1" x]
    float32_eval[of "0" x]
  by (simp_all add: pow2_def)

lemma funpow_numeral_step: "(f ^^ numeral k) x = (f ^^ pred_numeral k) (f x)"
  by (simp add: numeral_eq_Suc funpow_swap1)

lemmas ramp_eval = funpow_numeral_step ramp_step_def step32 float32_bin round_half_even_def

lemma ramp_step_bounds:
  assumes "0 \<le> p" "p < 1"
  shows "p < ramp_step p" "ramp_step p \<le> 1"
    "ramp_step p = 1 \<or> \<bar>ramp_step p - (p + 1 / 500)\<bar> \<le> 1 / 2 ^ 23"
proof -
  define s :: real where "s = 8589935 / 4294967296"
  let ?y = "float32 (p + s)"
  have r: "ramp_step p = min ?y 1" by (simp add: ramp_step_def step32 s_def)
  have "0 < p + s" "p + s < 2" using assms by (simp_all add: s_def)
  from float32_error[OF this] have e: "\<bar>?y - (p + s)\<bar> \<le> 1 / 2 ^ 24" .
  have lo: "p + s - 1 / 2 ^ 24 \<le> ?y" and hi: "?y \<le> p + s + 1 / 2 ^ 24"
    using e by linarith+
  have s1: "p < p + s - 1 / 2 ^ 24" by (simp add: s_def)
  from lo s1 have "p < ?y" by linarith
  with assms show "p < ramp_step p" by (simp add: r)
  show "ramp_step p \<le> 1" by (simp add: r)
  show "ramp_step p = 1 \<or> \<bar>ramp_step p - (p + 1 / 500)\<bar> \<le> 1 / 2 ^ 23"
  proof (cases "?y \<le> 1")
    case True
    then have y: "ramp_step p = ?y" by (simp add: r)
    have s2: "s - 1 / 2 ^ 24 \<ge> 1 / 500 - 1 / 2 ^ 23" "s + 1 / 2 ^ 24 \<le> 1 / 500 + 1 / 2 ^ 23"
      by (simp_all add: s_def)
    from lo hi s2 have "\<bar>?y - (p + 1 / 500)\<bar> \<le> 1 / 2 ^ 23" by linarith
    with y show ?thesis by simp
  next
    case False
    then show ?thesis by (simp add: r)
  qed
qed

lemma ramp_step_one: "ramp_step 1 = 1"
  by (simp add: ramp_step_def step32 float32_bin round_half_even_def)

lemma ramp_step_mono: "0 \<le> p \<Longrightarrow> p \<le> 1 \<Longrightarrow> p \<le> ramp_step p \<and> ramp_step p \<le> 1"
  using ramp_step_bounds(1,2)[of p] ramp_step_one by (cases "p = 1") auto

lemma ramp_fixed: "(ramp_step ^^ n) 1 = 1"
  by (induction n) (simp_all add: ramp_step_one)

lemma ramp_range: "0 \<le> p \<Longrightarrow> p \<le> 1 \<Longrightarrow> p \<le> (ramp_step ^^ n) p \<and> (ramp_step ^^ n) p \<le> 1"
proof (induction n)
  case 0
  then show ?case by simp
next
  case (Suc n)
  with ramp_step_mono[of "(ramp_step ^^ n) p"] show ?case by auto
qed

text \<open>
  A ramp started at 0 is still short of 1 after 500 ticks and is clamped to 1 by tick
  501.
\<close>

lemma ramp_500: "(ramp_step ^^ 500) 0 = 16777119 / 16777216"
  by (simp add: ramp_eval)

lemma ramp_501: "(ramp_step ^^ 501) 0 = 1"
proof -
  have s: "(501::nat) = Suc 500" by simp
  have "(ramp_step ^^ Suc 500) 0 = ramp_step ((ramp_step ^^ 500) 0)"
    by (simp only: funpow.simps o_apply)
  also have "\<dots> = 1"
    unfolding ramp_500 by (simp add: ramp_step_def step32 float32_bin round_half_even_def)
  finally show ?thesis unfolding s .
qed

lemma ramp_done:
  assumes "501 \<le> n"
  shows "(ramp_step ^^ n) 0 = 1"
proof -
  from assms obtain m where "n = m + 501" by (metis le_add_diff_inverse2)
  then show ?thesis by (simp add: funpow_add ramp_501 ramp_fixed del: funpow.simps)
qed

section \<open>The transition check\<close>

lemma stateName_inject: "stateName a = stateName b \<longleftrightarrow> a = b"
  by (cases a; cases b) simp_all

text \<open>
  Claim C1. For every behaviour state, every value of the progress counter and every
  requested mode, one evaluation of \<open>checkChange\<close> returns the name of the state that the
  transition table of the specification gives: Waiting goes to GetUp only on a request for
  GetUp; GetUp stays until the progress has reached 1 and then follows a request for
  Locomotion, Navigation, GetDown or Waiting; GetDown goes to Waiting once the progress has
  reached 1, else to GetUp on a request for GetUp, and else stays; Locomotion and Navigation
  follow any request that names a behaviour state, their own included, and stay otherwise.
  The result depends on nothing but the current state, the progress counter and the
  requested mode: there is no dwell time and no debounce counter.
\<close>

theorem checkChange_follows_table:
  "checkChange st rl =
     stateName (table_next st (running_percent rl) (control_state (control rl)))"
  by (cases st; cases "control_state (control rl)")
     (simp_all add: Waiting_checkChange_def GetUp_checkChange_def GetDown_checkChange_def
        RL_Locomotion_checkChange_def RL_Navigation_checkChange_def mode_of_request_def)

section \<open>The learned-mode tick\<close>

lemma RL_Locomotion_dof_fresh:
  "RL_Locomotion_dof rl p v i c =
     do {
       c1 \<leftarrow> (if fresh p
               then do {
                 x \<leftarrow> tensor_at (output_dof_pos rl) (int i);
                 q' \<leftarrow> vec_set (cmd_q c) i x;
                 Some (c\<lparr>cmd_q := q'\<rparr>)
               }
               else Some c);
       c2 \<leftarrow> (if fresh v
               then do {
                 x \<leftarrow> tensor_at (output_dof_vel rl) (int i);
                 dq' \<leftarrow> vec_set (cmd_dq c1) i x;
                 Some (c1\<lparr>cmd_dq := dq'\<rparr>)
               }
               else Some c1);
       kpv \<leftarrow> row_at (rl_kp (params rl)) (int i);
       kp' \<leftarrow> vec_set (cmd_kp c2) i kpv;
       kdv \<leftarrow> row_at (rl_kd (params rl)) (int i);
       kd' \<leftarrow> vec_set (cmd_kd c2) i kdv;
       tau' \<leftarrow> vec_set (cmd_tau c2) i 0;
       Some (c2\<lparr>cmd_kp := kp', cmd_kd := kd', cmd_tau := tau'\<rparr>)
     }"
  unfolding RL_Locomotion_dof_def fresh_def ..

lemma RL_Locomotion_dof_step:
  assumes "RL_fits rl p v c n"
  shows "RL_Locomotion_dof rl p v n (RL_written rl p v c n) =
           (if RL_fits rl p v c (Suc n) then Some (RL_written rl p v c (Suc n)) else None)"
proof (cases "RL_fits rl p v c (Suc n)")
  case True
  then show ?thesis using assms
    by (cases "fresh p"; cases "fresh v")
       (simp_all add: RL_Locomotion_dof_fresh RL_written_def RL_fits_def vec_at_def vec_set_def
          row_at_nat tensor_at_nat length_overwrite length_row_of overwrite_Suc[symmetric])
next
  case False
  then show ?thesis using assms
    by (cases "fresh p"; cases "fresh v")
       (auto simp add: RL_Locomotion_dof_fresh RL_written_def RL_fits_def vec_at_def vec_set_def
          row_at_nat tensor_at_nat length_overwrite length_row_of)
qed

lemma RL_fits_Suc: "RL_fits rl p v c (Suc n) \<Longrightarrow> RL_fits rl p v c n"
  by (auto simp: RL_fits_def split: if_splits)

lemma RL_Locomotion_loop:
  "for_loop n (RL_Locomotion_dof rl p v) c =
     (if RL_fits rl p v c n then Some (RL_written rl p v c n) else None)"
proof (induction n)
  case 0
  show ?case by (simp add: RL_fits_def RL_written_def overwrite_0)
next
  case (Suc n)
  show ?case
  proof (cases "RL_fits rl p v c n")
    case False
    with RL_fits_Suc have "\<not> RL_fits rl p v c (Suc n)" by blast
    with False Suc show ?thesis by simp
  next
    case True
    with Suc show ?thesis by (simp add: RL_Locomotion_dof_step)
  qed
qed

lemma Navigation_dof_eq: "RL_Navigation_dof = RL_Locomotion_dof"
  by (intro ext) (simp add: RL_Navigation_dof_def RL_Locomotion_dof_def)

lemma Navigation_run_eq: "RL_Navigation_run = RL_Locomotion_run"
  unfolding RL_Navigation_run_def RL_Locomotion_run_def Navigation_dof_eq ..

lemma RL_Locomotion_run_starved:
  assumes "output_dof_pos_queue rl = [] \<or> output_dof_vel_queue rl = []"
  shows "\<exists>rl'. RL_Locomotion_run rl c = Some (rl', c) \<and>
           (output_dof_pos_queue rl' = [] \<or> output_dof_vel_queue rl' = [])"
  using assms
  by (auto simp: RL_Locomotion_run_def try_pop_def print_def Let_def split: list.splits)

lemma learned_run_starved:
  assumes "st = RLFSMStateRL_Locomotion \<or> st = RLFSMStateRL_Navigation"
    and "output_dof_pos_queue rl = [] \<or> output_dof_vel_queue rl = []"
  shows "\<exists>rl'. run st r rl c = Some (rl', c) \<and>
           (output_dof_pos_queue rl' = [] \<or> output_dof_vel_queue rl' = [])"
  using assms RL_Locomotion_run_starved[of rl c] by (auto simp: Navigation_run_eq)

lemma learned_ticks_starved:
  assumes "st = RLFSMStateRL_Locomotion \<or> st = RLFSMStateRL_Navigation"
    and "output_dof_pos_queue rl = [] \<or> output_dof_vel_queue rl = []"
  shows "\<exists>rl'. calls env (map (Run st) rs) (rl, c) = Some (rl', c)"
  using assms(2)
proof (induction rs arbitrary: rl)
  case Nil
  show ?case by simp
next
  case (Cons r rs)
  from learned_run_starved[OF assms(1) Cons.prems, of r c]
  obtain rl1 where 1: "run st r rl c = Some (rl1, c)"
    and 2: "output_dof_pos_queue rl1 = [] \<or> output_dof_vel_queue rl1 = []" by blast
  from Cons.IH[OF 2] 1 show ?case by simp
qed

lemma RL_fits_popped:
  "RL_fits (rl\<lparr>console := co, output_dof_pos_queue := ps, output_dof_vel_queue := vs\<rparr>) p v c n
     = RL_fits rl p v c n"
  "RL_written (rl\<lparr>console := co, output_dof_pos_queue := ps, output_dof_vel_queue := vs\<rparr>) p v c n
     = RL_written rl p v c n"
  by (simp_all add: RL_fits_def RL_written_def)

lemma RL_Locomotion_run_fed:
  assumes "output_dof_pos_queue rl = p # ps" "output_dof_vel_queue rl = v # vs"
  shows "RL_Locomotion_run rl c =
    (if RL_fits rl p v c (nat (num_of_dofs (params rl)))
     then Some (print (Info_RLController (control_x (control rl)) (control_y (control rl))
                        (control_yaw (control rl))) rl
                  \<lparr>output_dof_pos_queue := ps, output_dof_vel_queue := vs\<rparr>,
                RL_written rl p v c (nat (num_of_dofs (params rl))))
     else None)"
  using assms
  by (simp add: RL_Locomotion_run_def try_pop_def print_def Let_def RL_Locomotion_loop
      RL_fits_popped)

lemma learned_run_empty:
  assumes "st = RLFSMStateRL_Locomotion \<or> st = RLFSMStateRL_Navigation"
    and "output_dof_pos_queue rl = []"
  shows "run st r rl c = Some ((print (Info_RLController (control_x (control rl)) (control_y (control rl))
                              (control_yaw (control rl))) rl), c)"
  using assms
  by (auto simp: Navigation_run_eq RL_Locomotion_run_def try_pop_def print_def Let_def)

lemma learned_run_dropped:
  assumes "st = RLFSMStateRL_Locomotion \<or> st = RLFSMStateRL_Navigation"
    and "output_dof_pos_queue rl = p # ps \<and> output_dof_vel_queue rl = []"
  shows "run st r rl c = Some ((print (Info_RLController (control_x (control rl)) (control_y (control rl))
                              (control_yaw (control rl))) rl)\<lparr>output_dof_pos_queue := ps\<rparr>, c)"
  using assms
  by (auto simp: Navigation_run_eq RL_Locomotion_run_def try_pop_def print_def Let_def)

lemma learned_run_fed:
  assumes st: "st = RLFSMStateRL_Locomotion \<or> st = RLFSMStateRL_Navigation"
    and a: "output_dof_pos_queue rl = p # ps \<and> output_dof_vel_queue rl = v # vs \<and>
          RL_fits rl p v c (nat (num_of_dofs (params rl)))"
  shows "\<exists>c'. run st r rl c =
                 Some ((print (Info_RLController (control_x (control rl)) (control_y (control rl))
                              (control_yaw (control rl))) rl)\<lparr>output_dof_pos_queue := ps, output_dof_vel_queue := vs\<rparr>, c') \<and>
               length (cmd_q c') = length (cmd_q c) \<and> length (cmd_dq c') = length (cmd_dq c) \<and>
               length (cmd_kp c') = length (cmd_kp c) \<and> length (cmd_kd c') = length (cmd_kd c) \<and>
               length (cmd_tau c') = length (cmd_tau c) \<and>
               (\<forall>i. cmd_q c' ! i =
                  (if i < nat (num_of_dofs (params rl)) \<and> fresh p
                   then row_of (output_dof_pos rl) ! i else cmd_q c ! i)) \<and>
               (\<forall>i. cmd_dq c' ! i =
                  (if i < nat (num_of_dofs (params rl)) \<and> fresh v
                   then row_of (output_dof_vel rl) ! i else cmd_dq c ! i)) \<and>
               (\<forall>i. cmd_kp c' ! i =
                  (if i < nat (num_of_dofs (params rl)) then rl_kp (params rl) ! i else cmd_kp c ! i)) \<and>
               (\<forall>i. cmd_kd c' ! i =
                  (if i < nat (num_of_dofs (params rl)) then rl_kd (params rl) ! i else cmd_kd c ! i)) \<and>
               (\<forall>i. cmd_tau c' ! i =
                  (if i < nat (num_of_dofs (params rl)) then 0 else cmd_tau c ! i))"
proof -
  let ?n = "nat (num_of_dofs (params rl))"
  have run: "run st r rl c = RL_Locomotion_run rl c"
    using st by (auto simp: Navigation_run_eq)
  have tau: "overwrite ?n (replicate (length (cmd_tau c)) 0) (cmd_tau c) ! i =
               (if i < ?n then 0 else cmd_tau c ! i)" for i
    using a by (simp add: overwrite_nth RL_fits_def)
  have fits: "RL_fits rl p v c ?n" using a by simp
  then have sizes: "?n \<le> length (rl_kp (params rl))" "?n \<le> length (rl_kd (params rl))"
    "?n \<le> length (cmd_kp c)" "?n \<le> length (cmd_kd c)" "?n \<le> length (cmd_tau c)"
    "fresh p \<Longrightarrow> ?n \<le> numel (output_dof_pos rl) \<and> ?n \<le> length (cmd_q c)"
    "fresh v \<Longrightarrow> ?n \<le> numel (output_dof_vel rl) \<and> ?n \<le> length (cmd_dq c)"
    by (simp_all add: RL_fits_def split: if_splits)
  show ?thesis
    unfolding run using a tau sizes
    by (simp add: RL_Locomotion_run_fed RL_written_def print_def
          length_overwrite overwrite_nth length_row_of)
qed

text \<open>
  Claim C2, as the code has it. In \<open>RLFSMStateRL_Locomotion\<close> and
  \<open>RLFSMStateRL_Navigation\<close> a tick prints the control target, pops the position queue
  and, only if that gave an element, the velocity queue. With the position queue empty the
  tick returns the controller with nothing but the printed line added, the velocity queue
  as it was, and the command as it was. With a position waiting and the velocity queue
  empty the tick removes that position from its queue, drops it, and returns the command as
  it was. So when either queue is empty nothing at all is written: the whole command, gains
  and torque included, is what it was, also after any number of such ticks. When both pops
  succeed then, provided the vectors and rows are wide enough for the joints, the tick
  returns with both queues shortened by one and nothing else of the controller changed but
  the printed line, and for every joint below \<open>num_of_dofs\<close> the position is overwritten
  from \<open>rl.output_dof_pos\<close> if the popped position tensor is defined and non-empty and kept
  otherwise, the velocity likewise from \<open>rl.output_dof_vel\<close>, the gains are \<open>rl_kp\<close> and
  \<open>rl_kd\<close> and the torque is 0; all entries from \<open>num_of_dofs\<close> on keep their values.
\<close>

theorem learned_tick_all_or_nothing:
  assumes "st = RLFSMStateRL_Locomotion \<or> st = RLFSMStateRL_Navigation"
  shows "(output_dof_pos_queue rl = [] \<longrightarrow> run st r rl c = Some ((print (Info_RLController (control_x (control rl)) (control_y (control rl))
                              (control_yaw (control rl))) rl), c)) \<and>
         (output_dof_pos_queue rl = p # ps \<and> output_dof_vel_queue rl = [] \<longrightarrow>
            run st r rl c = Some ((print (Info_RLController (control_x (control rl)) (control_y (control rl))
                              (control_yaw (control rl))) rl)\<lparr>output_dof_pos_queue := ps\<rparr>, c)) \<and>
         (output_dof_pos_queue rl = [] \<or> output_dof_vel_queue rl = [] \<longrightarrow>
            map_option snd (run st r rl c) = Some c \<and>
            map_option snd (calls env (map (Run st) rs) (rl, c)) = Some c) \<and>
         (output_dof_pos_queue rl = p # ps \<and> output_dof_vel_queue rl = v # vs \<and>
          RL_fits rl p v c (nat (num_of_dofs (params rl))) \<longrightarrow>
            (\<exists>c'. run st r rl c =
                 Some ((print (Info_RLController (control_x (control rl)) (control_y (control rl))
                              (control_yaw (control rl))) rl)\<lparr>output_dof_pos_queue := ps, output_dof_vel_queue := vs\<rparr>, c') \<and>
               length (cmd_q c') = length (cmd_q c) \<and> length (cmd_dq c') = length (cmd_dq c) \<and>
               length (cmd_kp c') = length (cmd_kp c) \<and> length (cmd_kd c') = length (cmd_kd c) \<and>
               length (cmd_tau c') = length (cmd_tau c) \<and>
               (\<forall>i. cmd_q c' ! i =
                  (if i < nat (num_of_dofs (params rl)) \<and> fresh p
                   then row_of (output_dof_pos rl) ! i else cmd_q c ! i)) \<and>
               (\<forall>i. cmd_dq c' ! i =
                  (if i < nat (num_of_dofs (params rl)) \<and> fresh v
                   then row_of (output_dof_vel rl) ! i else cmd_dq c ! i)) \<and>
               (\<forall>i. cmd_kp c' ! i =
                  (if i < nat (num_of_dofs (params rl)) then rl_kp (params rl) ! i else cmd_kp c ! i)) \<and>
               (\<forall>i. cmd_kd c' ! i =
                  (if i < nat (num_of_dofs (params rl)) then rl_kd (params rl) ! i else cmd_kd c ! i)) \<and>
               (\<forall>i. cmd_tau c' ! i =
                  (if i < nat (num_of_dofs (params rl)) then 0 else cmd_tau c ! i))))"
proof (intro conjI impI)
  assume "output_dof_pos_queue rl = []"
  from learned_run_empty[OF assms this]
  show "run st r rl c = Some ((print (Info_RLController (control_x (control rl)) (control_y (control rl))
                              (control_yaw (control rl))) rl), c)" .
next
  assume "output_dof_pos_queue rl = p # ps \<and> output_dof_vel_queue rl = []"
  from learned_run_dropped[OF assms this]
  show "run st r rl c = Some ((print (Info_RLController (control_x (control rl)) (control_y (control rl))
                              (control_yaw (control rl))) rl)\<lparr>output_dof_pos_queue := ps\<rparr>, c)" .
next
  assume q: "output_dof_pos_queue rl = [] \<or> output_dof_vel_queue rl = []"
  from learned_run_starved[OF assms q, of r c]
  show "map_option snd (run st r rl c) = Some c" by auto
  from learned_ticks_starved[OF assms q, of env rs c]
  show "map_option snd (calls env (map (Run st) rs) (rl, c)) = Some c" by auto
qed (rule learned_run_fed[OF assms])

theorem learned_tick_all_or_nothing_witness:
  "output_dof_pos_queue go2_rl = [] \<and>
   run RLFSMStateRL_Locomotion go2_state go2_rl go2_command
     = Some (go2_rl\<lparr>console := [Info_RLController 0 0 0]\<rparr>, go2_command) \<and>
   map_option snd (calls no_files (map (Run RLFSMStateRL_Locomotion) [go2_state, go2_state, go2_state])
                     (go2_rl, go2_command)) = Some go2_command \<and>
   output_dof_pos_queue position_only = [Some [1, 1]] \<and> output_dof_vel_queue position_only = [] \<and>
   run RLFSMStateRL_Navigation go2_state position_only go2_command
     = Some (go2_rl\<lparr>console := [Info_RLController 0 0 0]\<rparr>, go2_command) \<and>
   output_dof_pos_queue fed = [Some [1, 1]] \<and> output_dof_vel_queue fed = [Some [0, 3]] \<and>
   RL_fits fed (Some [1, 1]) (Some [0, 3]) go2_command (nat (num_of_dofs (params fed))) \<and>
   run RLFSMStateRL_Locomotion go2_state fed go2_command =
     Some (go2_rl\<lparr>console := [Info_RLController 0 0 0]\<rparr>,
           \<lparr>cmd_q = [1, 1], cmd_dq = [0, 3], cmd_kp = [20, 20], cmd_kd = [1 / 2, 1 / 2],
            cmd_tau = [0, 0]\<rparr>)"
proof -
  have q: "output_dof_pos_queue go2_rl = []" by (simp add: go2_rl_def)
  have po: "output_dof_pos_queue position_only = [Some [1, 1]] \<and> output_dof_vel_queue position_only = []"
    by (simp add: position_only_def go2_rl_def)
  have f: "output_dof_pos_queue fed = [Some [1, 1]] \<and> output_dof_vel_queue fed = [Some [0, 3]] \<and>
           RL_fits fed (Some [1, 1]) (Some [0, 3]) go2_command (nat (num_of_dofs (params fed)))"
    by (simp add: fed_def go2_rl_def go2_params_def go2_command_def RL_fits_def fresh_def
          defined_def numel_def)
  have pr: "print (Info_RLController (control_x (control go2_rl)) (control_y (control go2_rl))
                (control_yaw (control go2_rl))) go2_rl = go2_rl\<lparr>console := [Info_RLController 0 0 0]\<rparr>"
    by (simp add: print_def go2_rl_def)
  have pp: "(print (Info_RLController (control_x (control position_only))
                (control_y (control position_only)) (control_yaw (control position_only)))
              position_only)\<lparr>output_dof_pos_queue := []\<rparr>
            = go2_rl\<lparr>console := [Info_RLController 0 0 0]\<rparr>"
    by (simp add: print_def position_only_def go2_rl_def)
  from learned_tick_all_or_nothing[of RLFSMStateRL_Locomotion go2_rl go2_state go2_command
      "Some [1, 1]" "[]" no_files "[go2_state, go2_state, go2_state]"] q
  have 1: "run RLFSMStateRL_Locomotion go2_state go2_rl go2_command
     = Some (go2_rl\<lparr>console := [Info_RLController 0 0 0]\<rparr>, go2_command) \<and>
   map_option snd (calls no_files (map (Run RLFSMStateRL_Locomotion) [go2_state, go2_state, go2_state])
                     (go2_rl, go2_command)) = Some go2_command"
    unfolding pr by (simp del: run.simps calls.simps)
  from learned_tick_all_or_nothing[of RLFSMStateRL_Navigation position_only go2_state go2_command
      "Some [1, 1]" "[]"] po
  have 2: "run RLFSMStateRL_Navigation go2_state position_only go2_command
     = Some (go2_rl\<lparr>console := [Info_RLController 0 0 0]\<rparr>, go2_command)"
    unfolding pp by (simp del: run.simps calls.simps)
  from learned_tick_all_or_nothing[of RLFSMStateRL_Locomotion fed go2_state go2_command
      "Some [1, 1]" "[]" no_files "[]" "Some [0, 3]" "[]"] f
  obtain c' where r: "run RLFSMStateRL_Locomotion go2_state fed go2_command =
      Some (print (Info_RLController (control_x (control fed)) (control_y (control fed))
                    (control_yaw (control fed))) fed
              \<lparr>output_dof_pos_queue := [], output_dof_vel_queue := []\<rparr>, c')"
    and l: "length (cmd_q c') = 2" "length (cmd_dq c') = 2" "length (cmd_kp c') = 2"
      "length (cmd_kd c') = 2" "length (cmd_tau c') = 2"
    and n: "\<forall>i. cmd_q c' ! i =
                  (if i < nat (num_of_dofs (params fed)) \<and> fresh (Some [1, 1])
                   then row_of (output_dof_pos fed) ! i else cmd_q go2_command ! i)"
      "\<forall>i. cmd_dq c' ! i =
                  (if i < nat (num_of_dofs (params fed)) \<and> fresh (Some [0, 3])
                   then row_of (output_dof_vel fed) ! i else cmd_dq go2_command ! i)"
      "\<forall>i. cmd_kp c' ! i =
                  (if i < nat (num_of_dofs (params fed)) then rl_kp (params fed) ! i
                   else cmd_kp go2_command ! i)"
      "\<forall>i. cmd_kd c' ! i =
                  (if i < nat (num_of_dofs (params fed)) then rl_kd (params fed) ! i
                   else cmd_kd go2_command ! i)"
      "\<forall>i. cmd_tau c' ! i =
                  (if i < nat (num_of_dofs (params fed)) then 0 else cmd_tau go2_command ! i)"
    by (auto simp: go2_command_def simp del: run.simps calls.simps)
  have two: "xs = [xs ! 0, xs ! 1]" if "length xs = 2" for xs :: "real list"
    using that by (cases xs; cases "tl xs") auto
  have v: "fresh (Some [1, 1])" "fresh (Some [0, 3])" "nat (num_of_dofs (params fed)) = 2"
    "row_of (output_dof_pos fed) = [1, 1]" "row_of (output_dof_vel fed) = [0, 3]"
    "rl_kp (params fed) = [20, 20]" "rl_kd (params fed) = [1 / 2, 1 / 2]"
    by (simp_all add: fresh_def defined_def numel_def fed_def go2_rl_def go2_params_def row_of_def)
  have e: "cmd_q c' ! 0 = 1" "cmd_q c' ! 1 = 1" "cmd_dq c' ! 0 = 0" "cmd_dq c' ! 1 = 3"
    "cmd_kp c' ! 0 = 20" "cmd_kp c' ! 1 = 20" "cmd_kd c' ! 0 = 1 / 2" "cmd_kd c' ! 1 = 1 / 2"
    "cmd_tau c' ! 0 = 0" "cmd_tau c' ! 1 = 0"
    using n v by simp_all
  have "cmd_q c' = [1, 1]" "cmd_dq c' = [0, 3]" "cmd_kp c' = [20, 20]"
    "cmd_kd c' = [1 / 2, 1 / 2]" "cmd_tau c' = [0, 0]"
    using two[OF l(1)] two[OF l(2)] two[OF l(3)] two[OF l(4)] two[OF l(5)]
    unfolding e by - assumption+
  then have c': "c' = \<lparr>cmd_q = [1, 1], cmd_dq = [0, 3], cmd_kp = [20, 20], cmd_kd = [1 / 2, 1 / 2],
            cmd_tau = [0, 0]\<rparr>" by (cases c') simp
  have 3: "run RLFSMStateRL_Locomotion go2_state fed go2_command =
     Some (go2_rl\<lparr>console := [Info_RLController 0 0 0]\<rparr>,
           \<lparr>cmd_q = [1, 1], cmd_dq = [0, 3], cmd_kp = [20, 20], cmd_kd = [1 / 2, 1 / 2],
            cmd_tau = [0, 0]\<rparr>)"
    unfolding r c' by (simp add: print_def fed_def go2_rl_def)
  from q 1 po 2 f 3 show ?thesis by blast
qed

text \<open>
  Claim C2 as the specification words it fails. With a decoded position waiting and the
  velocity queue empty, the per-field tick of the specification overwrites both positions
  and sets the learned-mode gains, whereas the tick of either learned state leaves the
  command untouched.
\<close>

theorem per_field_hold_last_counterexample:
  "available (output_dof_pos_queue position_only) = Some [1, 1] \<and>
   per_field_hold_last_tick position_only go2_command =
     Some (go2_command\<lparr>cmd_q := [1, 1], cmd_kp := [20, 20], cmd_kd := [1 / 2, 1 / 2]\<rparr>) \<and>
   map_option snd (RL_Locomotion_run position_only go2_command) = Some go2_command \<and>
   map_option snd (RL_Navigation_run position_only go2_command) = Some go2_command \<and>
   go2_command \<noteq> go2_command\<lparr>cmd_q := [1, 1], cmd_kp := [20, 20], cmd_kd := [1 / 2, 1 / 2]\<rparr>"
proof (intro conjI)
  show "available (output_dof_pos_queue position_only) = Some [1, 1]"
    by (simp add: position_only_def go2_rl_def available_def try_pop_def)
  show "per_field_hold_last_tick position_only go2_command =
     Some (go2_command\<lparr>cmd_q := [1, 1], cmd_kp := [20, 20], cmd_kd := [1 / 2, 1 / 2]\<rparr>)"
    by (simp add: position_only_def go2_rl_def go2_params_def go2_command_def available_def
        try_pop_def per_field_hold_last_tick_def per_field_dof_def numeral_2_eq_2
        vec_set_def row_at_def row_index_def)
  show "map_option snd (RL_Locomotion_run position_only go2_command) = Some go2_command"
    by (simp add: position_only_def go2_rl_def RL_Locomotion_run_def try_pop_def print_def Let_def)
  then show "map_option snd (RL_Navigation_run position_only go2_command) = Some go2_command"
    by (simp add: Navigation_run_eq)
  show "go2_command \<noteq> go2_command\<lparr>cmd_q := [1, 1], cmd_kp := [20, 20], cmd_kd := [1 / 2, 1 / 2]\<rparr>"
    by (simp add: go2_command_def)
qed

section \<open>Histories: what the calls leave unchanged\<close>

lemmas go2_defs = go2_rl_def go2_params_def go2_command_def go2_state_def go2_obs_def standing_def
  lying_def

lemmas vec_defs = vec_at_def vec_set_def row_at_def row_index_def


lemma run_progress:
  assumes "run st r rl c = Some (rl', c')"
  shows "running_percent rl' =
           (if (st = RLFSMStateGetUp \<or> st = RLFSMStateGetDown) \<and> running_percent rl < 1
            then ramp_step (running_percent rl) else running_percent rl)"
  using assms
  by (cases st)
     (auto simp: Waiting_run_def GetUp_run_def GetDown_run_def RL_Locomotion_run_def
        RL_Navigation_run_def print_def Let_def try_pop_def ramp_step_def
        split: if_splits option.splits list.splits Option.bind_splits)

lemma run_progress_range:
  assumes "run st r rl c = Some (rl', c')" "0 \<le> running_percent rl" "running_percent rl \<le> 1"
  shows "running_percent rl \<le> running_percent rl' \<and> running_percent rl' \<le> 1"
  using run_progress[OF assms(1)] ramp_step_mono[OF assms(2,3)] assms(3) by (simp split: if_splits)

lemma exit_progress: "running_percent (exit st rl) = running_percent rl"
  by (cases st)
     (simp_all add: Waiting_exit_def GetUp_exit_def GetDown_exit_def RL_Locomotion_exit_def
        RL_Navigation_exit_def)

lemma call_step_progress:
  assumes "call_step env x (rl, c) = Some (rl', c')" "\<not> is_Enter x"
    and "0 \<le> running_percent rl" "running_percent rl \<le> 1"
  shows "running_percent rl \<le> running_percent rl' \<and> running_percent rl' \<le> 1"
proof (cases x)
  case (Enter st r)
  with assms show ?thesis by simp
next
  case (Run st r)
  with assms have "run st r rl c = Some (rl', c')" by simp
  from run_progress_range[OF this assms(3,4)] show ?thesis .
next
  case (Exit st)
  with assms show ?thesis by (auto simp: exit_progress)
qed

lemma calls_progress:
  assumes "calls env tr s = Some s'" "list_all (\<lambda>x. \<not> is_Enter x) tr"
    and "0 \<le> running_percent (fst s)" "running_percent (fst s) \<le> 1"
  shows "running_percent (fst s) \<le> running_percent (fst s') \<and> running_percent (fst s') \<le> 1"
  using assms
proof (induction tr arbitrary: s)
  case Nil
  then show ?case by simp
next
  case (Cons x tr)
  from Cons.prems obtain s1 where 1: "call_step env x s = Some s1" and 2: "calls env tr s1 = Some s'"
    by (auto split: option.splits)
  from 1 Cons.prems(2-4)
  have 3: "running_percent (fst s) \<le> running_percent (fst s1) \<and> running_percent (fst s1) \<le> 1"
    using call_step_progress[of env x "fst s" "snd s" "fst s1" "snd s1"] by simp
  with Cons.prems(3) have "0 \<le> running_percent (fst s1)" by linarith
  with Cons.IH[OF 2] Cons.prems(2) 3
  have "running_percent (fst s1) \<le> running_percent (fst s') \<and> running_percent (fst s') \<le> 1"
    by simp
  with 3 show ?case by linarith
qed

lemma ramp_ticks:
  assumes st: "st = RLFSMStateGetUp \<or> st = RLFSMStateGetDown"
    and "calls env (map (Run st) rs) (rl, c) = Some (rl', c')"
    and "0 \<le> running_percent rl" "running_percent rl \<le> 1"
  shows "running_percent rl' = (ramp_step ^^ length rs) (running_percent rl)"
  using assms(2-)
proof (induction rs arbitrary: rl c)
  case Nil
  then show ?case by simp
next
  case (Cons r rs)
  from Cons.prems(1) obtain rl1 c1 where 1: "run st r rl c = Some (rl1, c1)"
    and 2: "calls env (map (Run st) rs) (rl1, c1) = Some (rl', c')"
    by (auto split: option.splits)
  have p1: "running_percent rl1 = ramp_step (running_percent rl)"
  proof (cases "running_percent rl < 1")
    case True
    with run_progress[OF 1] st show ?thesis by auto
  next
    case False
    with Cons.prems(3) have "running_percent rl = 1" by simp
    with run_progress[OF 1] show ?thesis by (simp add: ramp_step_one)
  qed
  from run_progress_range[OF 1 Cons.prems(2,3)] Cons.prems(2)
  have b: "0 \<le> running_percent rl1" "running_percent rl1 \<le> 1" by simp_all
  from Cons.IH[OF 2 b] p1 show ?case by (simp add: funpow_swap1)
qed

lemma enter_ramp_progress:
  "st = RLFSMStateGetUp \<or> st = RLFSMStateGetDown \<Longrightarrow> running_percent (enter st env r rl) = 0"
  by (auto simp: GetUp_enter_def GetDown_enter_def Let_def)

lemma ReadYamlRL_frame:
  assumes "ReadYamlRL env path rl = Returns rl' \<or> ReadYamlRL env path rl = Throws e rl'"
  shows "start_state rl' = start_state rl \<and> now_state rl' = now_state rl \<and>
         running_percent rl' = running_percent rl"
  using assms
  by (auto simp: ReadYamlRL_def Let_def print_def split: yaml_result.splits)

lemma InitRL_frame:
  assumes "InitRL env path rl = Returns rl' \<or> InitRL env path rl = Throws e rl'"
  shows "start_state rl' = start_state rl \<and> now_state rl' = now_state rl \<and>
         running_percent rl' = running_percent rl"
proof (cases "ReadYamlRL env path rl")
  case (Throws e1 rl1)
  with assms have "rl' = rl1" by (simp add: InitRL_def)
  with ReadYamlRL_frame[of env path rl rl1 e1] Throws show ?thesis by simp
next
  case (Returns rl1)
  from ReadYamlRL_frame[of env path rl rl1] Returns
  have 1: "start_state rl1 = start_state rl \<and> now_state rl1 = now_state rl \<and>
         running_percent rl1 = running_percent rl" by simp
  from assms Returns have "start_state rl' = start_state rl1 \<and> now_state rl' = now_state rl1 \<and>
         running_percent rl' = running_percent rl1"
    by (auto simp: InitRL_def Let_def InitObservations_def InitOutputs_def InitControl_def
          split: if_splits option.splits outcome.splits)
  with 1 show ?thesis by simp
qed

lemma learned_enter_frame:
  "start_state (RL_Locomotion_enter env rl) = start_state rl \<and>
   now_state (RL_Locomotion_enter env rl) = now_state rl \<and>
   running_percent (RL_Locomotion_enter env rl) = running_percent rl"
proof (cases "InitRL env (robot_name rl @ ''/'' @ default_rl_config rl) (rl\<lparr>config_name := default_rl_config rl\<rparr>)")
  case (Returns rl2)
  from InitRL_frame[of env "robot_name rl @ ''/'' @ default_rl_config rl"
      "rl\<lparr>config_name := default_rl_config rl\<rparr>" rl2] Returns show ?thesis
    by (simp add: RL_Locomotion_enter_def Let_def)
next
  case (Throws e rl2)
  from InitRL_frame[of env "robot_name rl @ ''/'' @ default_rl_config rl"
      "rl\<lparr>config_name := default_rl_config rl\<rparr>" rl2 e] Throws show ?thesis
    by (simp add: RL_Locomotion_enter_def Let_def print_def)
qed

lemma Navigation_enter_eq: "RL_Navigation_enter = RL_Locomotion_enter"
  unfolding RL_Navigation_enter_def RL_Locomotion_enter_def ..

lemma enter_start_state:
  "start_state (enter st env r rl) = (if st = RLFSMStateGetUp then r else start_state rl)"
  by (cases st)
     (simp_all add: Waiting_enter_def GetUp_enter_def GetDown_enter_def Let_def
        learned_enter_frame Navigation_enter_eq)

lemma run_start_state:
  assumes "run st r rl c = Some (rl', c')"
  shows "start_state rl' = start_state rl \<and> now_state rl' = now_state rl \<and> params rl' = params rl"
  using assms
  by (cases st)
     (auto simp: Waiting_run_def GetUp_run_def GetDown_run_def RL_Locomotion_run_def
        RL_Navigation_run_def print_def Let_def try_pop_def
        split: if_splits option.splits list.splits Option.bind_splits)

lemma exit_start_state: "start_state (exit st rl) = start_state rl"
  by (cases st)
     (simp_all add: Waiting_exit_def GetUp_exit_def GetDown_exit_def RL_Locomotion_exit_def
        RL_Navigation_exit_def)

lemma calls_start_state:
  assumes "calls env tr (rl, c) = Some (rl', c')"
  shows "start_state rl' = last_GetUp_entry tr (start_state rl)"
  using assms
proof (induction tr arbitrary: rl c)
  case Nil
  then show ?case by simp
next
  case (Cons x tr)
  from Cons.prems obtain rl1 c1 where 1: "call_step env x (rl, c) = Some (rl1, c1)"
    and 2: "calls env tr (rl1, c1) = Some (rl', c')"
    by (auto split: option.splits)
  have "last_GetUp_entry (x # tr) (start_state rl) = last_GetUp_entry tr (start_state rl1)"
  proof (cases x)
    case (Enter st r)
    with 1 show ?thesis by (cases st) (auto simp: enter_start_state simp del: enter.simps)
  next
    case (Run st r)
    with 1 run_start_state[of st r rl c rl1 c1] show ?thesis by simp
  next
    case (Exit st)
    with 1 show ?thesis by (auto simp: exit_start_state)
  qed
  with Cons.IH[OF 2] show ?case by simp
qed

section \<open>The loops of the two ramps\<close>

lemma GetUp_fits_Suc: "GetUp_fits rl c (Suc n) \<Longrightarrow> GetUp_fits rl c n"
  by (simp add: GetUp_fits_def)

lemma GetUp_dof_step:
  assumes "GetUp_fits rl c n"
  shows "GetUp_dof rl n (GetUp_written rl c n) =
           (if GetUp_fits rl c (Suc n) then Some (GetUp_written rl c (Suc n)) else None)"
proof (cases "GetUp_fits rl c (Suc n)")
  case True
  then show ?thesis using assms
    by (simp add: GetUp_dof_def GetUp_written_def GetUp_fits_def vec_at_def vec_set_def
          row_at_nat length_overwrite overwrite_Suc[symmetric] lerp_def)
next
  case False
  then show ?thesis using assms
    by (auto simp add: GetUp_dof_def GetUp_written_def GetUp_fits_def vec_at_def
          vec_set_def row_at_nat length_overwrite)
qed

lemma GetUp_loop:
  "for_loop n (GetUp_dof rl) c =
     (if GetUp_fits rl c n then Some (GetUp_written rl c n) else None)"
proof (induction n)
  case 0
  show ?case by (simp add: GetUp_fits_def GetUp_written_def overwrite_0)
next
  case (Suc n)
  show ?case
  proof (cases "GetUp_fits rl c n")
    case False
    with GetUp_fits_Suc have "\<not> GetUp_fits rl c (Suc n)" by blast
    with False Suc show ?thesis by simp
  next
    case True
    with Suc show ?thesis by (simp add: GetUp_dof_step)
  qed
qed

lemma GetDown_fits_Suc: "GetDown_fits rl c (Suc n) \<Longrightarrow> GetDown_fits rl c n"
  by (simp add: GetDown_fits_def)

lemma GetDown_dof_step:
  assumes "GetDown_fits rl c n"
  shows "GetDown_dof rl n (GetDown_written rl c n) =
           (if GetDown_fits rl c (Suc n) then Some (GetDown_written rl c (Suc n)) else None)"
proof (cases "GetDown_fits rl c (Suc n)")
  case True
  then show ?thesis using assms
    by (simp add: GetDown_dof_def GetDown_written_def GetDown_fits_def vec_at_def vec_set_def
          row_at_nat length_overwrite overwrite_Suc[symmetric] lerp_def)
next
  case False
  then show ?thesis using assms
    by (auto simp add: GetDown_dof_def GetDown_written_def GetDown_fits_def vec_at_def
          vec_set_def row_at_nat length_overwrite)
qed

lemma GetDown_loop:
  "for_loop n (GetDown_dof rl) c =
     (if GetDown_fits rl c n then Some (GetDown_written rl c n) else None)"
proof (induction n)
  case 0
  show ?case by (simp add: GetDown_fits_def GetDown_written_def overwrite_0)
next
  case (Suc n)
  show ?case
  proof (cases "GetDown_fits rl c n")
    case False
    with GetDown_fits_Suc have "\<not> GetDown_fits rl c (Suc n)" by blast
    with False Suc show ?thesis by simp
  next
    case True
    with Suc show ?thesis by (simp add: GetDown_dof_step)
  qed
qed

lemma ramp_fits_progress:
  "GetUp_fits (rl\<lparr>running_percent := a\<rparr>) c n = GetUp_fits rl c n"
  "GetDown_fits (rl\<lparr>running_percent := a\<rparr>) c n = GetDown_fits rl c n"
  by (simp_all add: GetUp_fits_def GetDown_fits_def)

lemma GetUp_run_closed:
  "GetUp_run rl c =
     (if running_percent rl < 1 then
        (if GetUp_fits rl c (nat (num_of_dofs (params rl)))
         then Some (print (Info_GettingUp (float32 (ramp_step (running_percent rl) * 100)))
                      (rl\<lparr>running_percent := ramp_step (running_percent rl)\<rparr>),
                    GetUp_written (rl\<lparr>running_percent := ramp_step (running_percent rl)\<rparr>) c
                      (nat (num_of_dofs (params rl))))
         else None)
      else Some (rl, c))"
  by (simp add: GetUp_run_def Let_def GetUp_loop ramp_fits_progress ramp_step_def)

lemma GetDown_run_closed:
  "GetDown_run rl c =
     (if running_percent rl < 1 then
        (if GetDown_fits rl c (nat (num_of_dofs (params rl)))
         then Some (print (Info_GettingDown (float32 (ramp_step (running_percent rl) * 100)))
                      (rl\<lparr>running_percent := ramp_step (running_percent rl)\<rparr>),
                    GetDown_written (rl\<lparr>running_percent := ramp_step (running_percent rl)\<rparr>) c
                      (nat (num_of_dofs (params rl))))
         else None)
      else Some (rl, c))"
  by (simp add: GetDown_run_def Let_def GetDown_loop ramp_fits_progress ramp_step_def)

lemma ramp_run_returns:
  assumes st: "st = RLFSMStateGetUp \<or> st = RLFSMStateGetDown"
    and fits: "ramp_fits st rl c"
  shows "\<exists>rl' c'. run st r rl c = Some (rl', c') \<and> ramp_fits st rl' c'"
proof (cases "running_percent rl < 1")
  case False
  with st fits show ?thesis by (auto simp: GetUp_run_closed GetDown_run_closed)
next
  case True
  from st show ?thesis
  proof
    assume "st = RLFSMStateGetUp"
    with fits True show ?thesis
      by (simp add: GetUp_run_closed ramp_fits_def print_def GetUp_fits_def GetUp_written_def
            length_overwrite)
  next
    assume "st = RLFSMStateGetDown"
    with fits True show ?thesis
      by (simp add: GetDown_run_closed ramp_fits_def print_def GetDown_fits_def GetDown_written_def
            length_overwrite)
  qed
qed

lemma ramp_ticks_return:
  assumes st: "st = RLFSMStateGetUp \<or> st = RLFSMStateGetDown"
    and fits: "ramp_fits st rl c"
  shows "\<exists>rl' c'. calls env (map (Run st) rs) (rl, c) = Some (rl', c') \<and> ramp_fits st rl' c'"
  using fits
proof (induction rs arbitrary: rl c)
  case Nil
  then show ?case by simp
next
  case (Cons r rs)
  from ramp_run_returns[OF st Cons.prems, of r]
  obtain rl1 c1 where 1: "run st r rl c = Some (rl1, c1)" and 2: "ramp_fits st rl1 c1" by blast
  from Cons.IH[OF 2] 1 show ?case by simp
qed

section \<open>The progress counter\<close>

text \<open>
  Claim C3, as the code has it. Take an activation of \<open>RLFSMStateGetUp\<close> or
  \<open>RLFSMStateGetDown\<close>: the entry of the state followed by any number of ticks, and then
  one more tick, with an entry for every joint below \<open>num_of_dofs\<close> in the vectors and rows
  that a tick indexes. The entry sets the progress counter to 0, and every tick returns.
  The counter is a \<open>float\<close>: a tick that finds it below 1 replaces \<open>p\<close> by
  \<open>min (float32 (p + float32 (1 / 500))) 1\<close>, and a tick that finds it at 1 leaves it.
  So after \<open>n\<close> ticks the counter is this step iterated \<open>n\<close> times from 0; it lies in
  \<open>[0, 1]\<close> and never exceeds 1; the next tick does not decrease it, and increases it
  while it is below 1, either to 1 or by 1/500 up to an error of \<open>2\<^sup>-\<^sup>2\<^sup>3\<close>. After 500
  ticks the counter is 16777119/16777216, still below 1, and from the 501st tick on it is 1.
  From a counter in \<open>[0, 1]\<close> no call other than an entry, of any state and in any order,
  ever decreases the counter or takes it out of \<open>[0, 1]\<close>, so only an entry resets it.
\<close>

theorem progress_ramp:
  assumes st: "st = RLFSMStateGetUp \<or> st = RLFSMStateGetDown"
    and fits: "ramp_fits st (enter st env r rl) c"
  shows "running_percent (enter st env r rl) = 0 \<and>
         (\<exists>rl1 c1 rl2 c2.
            calls env (map (Run st) rs) (enter st env r rl, c) = Some (rl1, c1) \<and>
            run st r' rl1 c1 = Some (rl2, c2) \<and>
            running_percent rl1 = (ramp_step ^^ length rs) 0 \<and>
            running_percent rl2 = ramp_step (running_percent rl1) \<and>
            0 \<le> running_percent rl1 \<and> running_percent rl1 \<le> 1 \<and>
            running_percent rl1 \<le> running_percent rl2 \<and> running_percent rl2 \<le> 1 \<and>
            (running_percent rl1 < 1 \<longrightarrow>
               running_percent rl1 < running_percent rl2 \<and>
               (running_percent rl2 = 1 \<or>
                \<bar>running_percent rl2 - (running_percent rl1 + 1 / 500)\<bar> \<le> 1 / 2 ^ 23)) \<and>
            (running_percent rl1 = 1 \<longrightarrow> running_percent rl2 = 1) \<and>
            (length rs = 500 \<longrightarrow> running_percent rl1 = 16777119 / 16777216) \<and>
            (501 \<le> length rs \<longrightarrow> running_percent rl1 = 1)) \<and>
         (\<forall>tr s s'. list_all (\<lambda>x. \<not> is_Enter x) tr \<longrightarrow> calls env tr s = Some s' \<longrightarrow>
              0 \<le> running_percent (fst s) \<longrightarrow> running_percent (fst s) \<le> 1 \<longrightarrow>
              running_percent (fst s) \<le> running_percent (fst s') \<and> running_percent (fst s') \<le> 1)"
proof -
  let ?e = "enter st env r rl"
  have e: "running_percent ?e = 0" by (rule enter_ramp_progress[OF st])
  from ramp_ticks_return[OF st fits, of env rs] obtain rl1 c1 where
    1: "calls env (map (Run st) rs) (?e, c) = Some (rl1, c1)" and f1: "ramp_fits st rl1 c1"
    by blast
  from ramp_run_returns[OF st f1, of r'] obtain rl2 c2 where
    2: "run st r' rl1 c1 = Some (rl2, c2)" by blast
  from ramp_ticks[OF st 1] e have p1: "running_percent rl1 = (ramp_step ^^ length rs) 0" by simp
  from ramp_range[of 0 "length rs"] p1
  have b: "0 \<le> running_percent rl1" "running_percent rl1 \<le> 1" by simp_all
  have p2: "running_percent rl2 = ramp_step (running_percent rl1)"
  proof (cases "running_percent rl1 < 1")
    case True
    with run_progress[OF 2] st show ?thesis by auto
  next
    case False
    with b have "running_percent rl1 = 1" by simp
    with run_progress[OF 2] show ?thesis by (simp add: ramp_step_one)
  qed
  from ramp_step_mono[OF b] p2
  have m: "running_percent rl1 \<le> running_percent rl2" "running_percent rl2 \<le> 1" by simp_all
  have lt: "running_percent rl1 < 1 \<longrightarrow>
               running_percent rl1 < running_percent rl2 \<and>
               (running_percent rl2 = 1 \<or>
                \<bar>running_percent rl2 - (running_percent rl1 + 1 / 500)\<bar> \<le> 1 / 2 ^ 23)"
    using ramp_step_bounds(1,3)[OF b(1)] p2 by simp
  have one: "running_percent rl1 = 1 \<longrightarrow> running_percent rl2 = 1"
    using p2 by (simp add: ramp_step_one)
  have n500: "length rs = 500 \<longrightarrow> running_percent rl1 = 16777119 / 16777216"
    using p1 ramp_500 by simp
  have n501: "501 \<le> length rs \<longrightarrow> running_percent rl1 = 1"
    using p1 ramp_done by simp
  have mono: "\<forall>tr s s'. list_all (\<lambda>x. \<not> is_Enter x) tr \<longrightarrow> calls env tr s = Some s' \<longrightarrow>
              0 \<le> running_percent (fst s) \<longrightarrow> running_percent (fst s) \<le> 1 \<longrightarrow>
              running_percent (fst s) \<le> running_percent (fst s') \<and> running_percent (fst s') \<le> 1"
    using calls_progress by blast
  from 1 2 p1 p2 b m lt one n500 n501
  have "\<exists>rl1 c1 rl2 c2.
            calls env (map (Run st) rs) (enter st env r rl, c) = Some (rl1, c1) \<and>
            run st r' rl1 c1 = Some (rl2, c2) \<and>
            running_percent rl1 = (ramp_step ^^ length rs) 0 \<and>
            running_percent rl2 = ramp_step (running_percent rl1) \<and>
            0 \<le> running_percent rl1 \<and> running_percent rl1 \<le> 1 \<and>
            running_percent rl1 \<le> running_percent rl2 \<and> running_percent rl2 \<le> 1 \<and>
            (running_percent rl1 < 1 \<longrightarrow>
               running_percent rl1 < running_percent rl2 \<and>
               (running_percent rl2 = 1 \<or>
                \<bar>running_percent rl2 - (running_percent rl1 + 1 / 500)\<bar> \<le> 1 / 2 ^ 23)) \<and>
            (running_percent rl1 = 1 \<longrightarrow> running_percent rl2 = 1) \<and>
            (length rs = 500 \<longrightarrow> running_percent rl1 = 16777119 / 16777216) \<and>
            (501 \<le> length rs \<longrightarrow> running_percent rl1 = 1)"
    by blast
  with e mono show ?thesis by blast
qed

theorem progress_ramp_witness:
  "map_option (running_percent \<circ> fst)
     (calls no_files (map (Run RLFSMStateGetUp) [go2_state, go2_state])
        (enter RLFSMStateGetUp no_files lying go2_rl, go2_command)) = Some (8589935 / 2147483648) \<and>
   map_option (running_percent \<circ> fst)
     (calls no_files (map (Run RLFSMStateGetDown) [go2_state, go2_state, go2_state])
        (enter RLFSMStateGetDown no_files standing go2_rl, go2_command)) = Some (6442451 / 1073741824)"
proof -
  have u: "ramp_fits RLFSMStateGetUp (enter RLFSMStateGetUp no_files lying go2_rl) go2_command"
    by (simp add: ramp_fits_def GetUp_fits_def GetUp_enter_def Let_def go2_defs)
  have d: "ramp_fits RLFSMStateGetDown (enter RLFSMStateGetDown no_files standing go2_rl) go2_command"
    by (simp add: ramp_fits_def GetDown_fits_def GetDown_enter_def Let_def go2_defs)
  have 2: "(ramp_step ^^ 2) 0 = 8589935 / 2147483648" by (simp add: ramp_eval)
  have 3: "(ramp_step ^^ 3) 0 = 6442451 / 1073741824" by (simp add: ramp_eval)
  from progress_ramp[where rs = "[go2_state, go2_state]" and r' = go2_state, OF _ u]
  obtain rl1 c1 where
    "calls no_files (map (Run RLFSMStateGetUp) [go2_state, go2_state])
        (enter RLFSMStateGetUp no_files lying go2_rl, go2_command) = Some (rl1, c1)"
    "running_percent rl1 = (ramp_step ^^ length [go2_state, go2_state]) 0"
    by blast
  then have a: "map_option (running_percent \<circ> fst)
     (calls no_files (map (Run RLFSMStateGetUp) [go2_state, go2_state])
        (enter RLFSMStateGetUp no_files lying go2_rl, go2_command)) = Some ((ramp_step ^^ 2) 0)"
    by (simp only: option.map_sel option.simps o_apply fst_conv list.size)
       (simp only: numeral_2_eq_2 One_nat_def add_0 add_Suc)
  from progress_ramp[where rs = "[go2_state, go2_state, go2_state]" and r' = go2_state, OF _ d]
  obtain rl1 c1 where
    "calls no_files (map (Run RLFSMStateGetDown) [go2_state, go2_state, go2_state])
        (enter RLFSMStateGetDown no_files standing go2_rl, go2_command) = Some (rl1, c1)"
    "running_percent rl1 = (ramp_step ^^ length [go2_state, go2_state, go2_state]) 0"
    by blast
  then have b: "map_option (running_percent \<circ> fst)
     (calls no_files (map (Run RLFSMStateGetDown) [go2_state, go2_state, go2_state])
        (enter RLFSMStateGetDown no_files standing go2_rl, go2_command)) = Some ((ramp_step ^^ 3) 0)"
    by (simp only: option.map_sel option.simps o_apply fst_conv list.size)
       (simp only: numeral_3_eq_3 One_nat_def add_0 add_Suc)
  from a b show ?thesis unfolding 2 3 by (rule conjI)
qed

text \<open>
  Claim C3 as the specification words it fails on the fixed step: the counter does not
  increase by exactly 1/500 per tick while below 1. On the two-joint robot the first tick of
  \<open>RLFSMStateGetUp\<close> takes the counter from 0 to 8589935/4294967296, the \<open>float\<close> nearest
  to 1/500, which is not 1/500; after 500 ticks the counter is 16777119/16777216, below 1,
  and the 501st tick takes it to 1, which is not that value plus 1/500.
\<close>

theorem fixed_step_counterexample:
  "map_option (running_percent \<circ> fst)
     (run RLFSMStateGetUp go2_state (enter RLFSMStateGetUp no_files go2_state go2_rl) go2_command)
     = Some (8589935 / 4294967296) \<and>
   (8589935 / 4294967296 :: real) \<noteq> 0 + 1 / 500 \<and>
   map_option (running_percent \<circ> fst)
     (calls no_files (map (Run RLFSMStateGetUp) (replicate 500 go2_state))
        (enter RLFSMStateGetUp no_files go2_state go2_rl, go2_command))
     = Some (16777119 / 16777216) \<and>
   (16777119 / 16777216 :: real) < 1 \<and>
   map_option (running_percent \<circ> fst)
     (calls no_files (map (Run RLFSMStateGetUp) (replicate 501 go2_state))
        (enter RLFSMStateGetUp no_files go2_state go2_rl, go2_command))
     = Some 1 \<and>
   (1 :: real) \<noteq> 16777119 / 16777216 + 1 / 500"
proof -
  let ?e = "enter RLFSMStateGetUp no_files go2_state go2_rl"
  have u: "ramp_fits RLFSMStateGetUp ?e go2_command"
    by (simp add: ramp_fits_def GetUp_fits_def GetUp_enter_def Let_def go2_defs)
  have e: "running_percent ?e = 0" by (simp add: GetUp_enter_def Let_def)
  have n: "map_option (running_percent \<circ> fst)
     (calls no_files (map (Run RLFSMStateGetUp) (replicate n go2_state)) (?e, go2_command))
     = Some ((ramp_step ^^ n) 0)" for n
  proof -
    from ramp_ticks_return[OF _ u, of no_files "replicate n go2_state"] obtain rl1 c1 where
      1: "calls no_files (map (Run RLFSMStateGetUp) (replicate n go2_state)) (?e, go2_command)
            = Some (rl1, c1)" by blast
    from ramp_ticks[OF _ 1] e have "running_percent rl1 = (ramp_step ^^ n) 0" by simp
    with 1 show ?thesis by simp
  qed
  have 1: "map_option (running_percent \<circ> fst) (run RLFSMStateGetUp go2_state ?e go2_command)
     = Some (8589935 / 4294967296)"
    using n[of 1] by (simp add: ramp_eval split: option.splits)
  show ?thesis
    using 1 n[of 500] n[of 501] unfolding ramp_500 ramp_501 by simp
qed

section \<open>Failed activation of a learned mode\<close>

lemma learned_run_control:
  assumes "st = RLFSMStateRL_Locomotion \<or> st = RLFSMStateRL_Navigation"
    and "run st r rl c = Some (rl', c')"
  shows "control rl' = control rl \<and> rl_init_done rl' = rl_init_done rl"
  using assms
  by (auto simp: RL_Locomotion_run_def Navigation_run_eq print_def Let_def try_pop_def
        split: option.splits list.splits Option.bind_splits)

lemma learned_enter_throws:
  assumes "InitRL env (robot_name rl @ ''/'' @ default_rl_config rl)
             (rl\<lparr>config_name := default_rl_config rl\<rparr>) = Throws e rl1"
  shows "RL_Locomotion_enter env rl =
           rl1\<lparr>console := console rl1 @ [Error_InitRL_failed e], rl_init_done := False,
               control := (control rl1)\<lparr>control_state := STATE_POS_GETUP\<rparr>\<rparr>"
  using assms by (simp add: RL_Locomotion_enter_def Let_def print_def)


lemma InitRL_throws:
  "throws (InitRL env path rl) =
     (case yaml_file env (source_dir env @ ''/models/'' @ path @ ''/config.yaml'') path of
        YamlBadFile \<Rightarrow>
          \<not> jit_load env (source_dir env @ ''/models/'' @ path @ ''/'' @ model_name (params rl))
          \<or> num_of_dofs (params rl) < 0
      | YamlThrows e f \<Rightarrow> True
      | YamlParsed p \<Rightarrow>
          \<not> jit_load env (source_dir env @ ''/models/'' @ path @ ''/'' @ model_name p)
          \<or> num_of_dofs p < 0)"
  by (simp add: InitRL_def ReadYamlRL_def InitObservations_def InitOutputs_def zeros_def Let_def
        print_def split: yaml_result.splits)

text \<open>
  Claim C4, as the code has it. \<open>InitRL\<close> throws exactly when a field of the profile fails
  to convert, or the policy file does not load, or \<open>num_of_dofs\<close> is negative; a missing
  profile file is caught inside \<open>ReadYamlRL\<close> and by itself does not make \<open>InitRL\<close>
  throw. If \<open>InitRL\<close> throws when \<open>RLFSMStateRL_Locomotion\<close> or
  \<open>RLFSMStateRL_Navigation\<close> is entered, the entry prints the error, leaves \<open>rl_init_done\<close>
  false and sets the requested mode to \<open>STATE_POS_GETUP\<close>, so that the transition check
  evaluated next on the controller as the entry left it, directly or after a tick of the
  state, names \<open>RLFSMStateGetUp\<close>. The exit of either learned state leaves \<open>rl_init_done\<close>
  false.
\<close>

theorem activation_failure_falls_back:
  assumes st: "st = RLFSMStateRL_Locomotion \<or> st = RLFSMStateRL_Navigation"
    and fails: "InitRL env (robot_name rl @ ''/'' @ default_rl_config rl)
                  (rl\<lparr>config_name := default_rl_config rl\<rparr>) = Throws e rl1"
  shows "rl_init_done (enter st env r rl) = False \<and>
         control_state (control (enter st env r rl)) = STATE_POS_GETUP \<and>
         console (enter st env r rl) = console rl1 @ [Error_InitRL_failed e] \<and>
         checkChange st (enter st env r rl) = stateName RLFSMStateGetUp \<and>
         (\<forall>r' c rl2 c2. run st r' (enter st env r rl) c = Some (rl2, c2) \<longrightarrow>
              checkChange st rl2 = stateName RLFSMStateGetUp) \<and>
         rl_init_done (exit st rl') = False \<and>
         throws (InitRL env0 path0 rl0) =
           (case yaml_file env0 (source_dir env0 @ ''/models/'' @ path0 @ ''/config.yaml'') path0 of
              YamlBadFile \<Rightarrow>
                \<not> jit_load env0 (source_dir env0 @ ''/models/'' @ path0 @ ''/''
                                    @ model_name (params rl0))
                \<or> num_of_dofs (params rl0) < 0
            | YamlThrows e0 f \<Rightarrow> True
            | YamlParsed p \<Rightarrow>
                \<not> jit_load env0 (source_dir env0 @ ''/models/'' @ path0 @ ''/'' @ model_name p)
                \<or> num_of_dofs p < 0)"
proof -
  have e: "enter st env r rl =
           rl1\<lparr>console := console rl1 @ [Error_InitRL_failed e], rl_init_done := False,
               control := (control rl1)\<lparr>control_state := STATE_POS_GETUP\<rparr>\<rparr>"
    using st learned_enter_throws[OF fails] by (auto simp: Navigation_enter_eq)
  have cc: "checkChange st x = stateName RLFSMStateGetUp"
    if "control_state (control x) = STATE_POS_GETUP" for x
    using st that by (auto simp: RL_Locomotion_checkChange_def RL_Navigation_checkChange_def)
  have "checkChange st rl2 = stateName RLFSMStateGetUp"
    if "run st r' (enter st env r rl) c = Some (rl2, c2)" for r' c rl2 c2
    using learned_run_control[OF st that] e cc[of rl2] by simp
  moreover have "rl_init_done (exit st rl') = False"
    using st by (auto simp: RL_Locomotion_exit_def RL_Navigation_exit_def)
  ultimately show ?thesis using e cc InitRL_throws[of env0 path0 rl0] by simp
qed

theorem activation_failure_witness:
  "throws (InitRL no_files (robot_name go2_rl @ ''/'' @ default_rl_config go2_rl)
                (go2_rl\<lparr>config_name := default_rl_config go2_rl\<rparr>)) \<and>
   rl_init_done (enter RLFSMStateRL_Locomotion no_files go2_state go2_rl) = False \<and>
   control_state (control (enter RLFSMStateRL_Locomotion no_files go2_state go2_rl)) = STATE_POS_GETUP \<and>
   checkChange RLFSMStateRL_Locomotion (enter RLFSMStateRL_Locomotion no_files go2_state go2_rl)
     = ''RLFSMStateGetUp'' \<and>
   throws (InitRL policy_missing (robot_name go2_rl @ ''/'' @ default_rl_config go2_rl)
                (go2_rl\<lparr>config_name := default_rl_config go2_rl\<rparr>)) \<and>
   rl_init_done (enter RLFSMStateRL_Navigation policy_missing go2_state go2_rl) = False \<and>
   control_state (control (enter RLFSMStateRL_Navigation policy_missing go2_state go2_rl))
     = STATE_POS_GETUP \<and>
   checkChange RLFSMStateRL_Navigation (enter RLFSMStateRL_Navigation policy_missing go2_state go2_rl)
     = ''RLFSMStateGetUp'' \<and>
   rl_init_done (exit RLFSMStateRL_Navigation fed) = False"
proof -
  let ?p = "robot_name go2_rl @ ''/'' @ default_rl_config go2_rl"
  let ?rl = "go2_rl\<lparr>config_name := default_rl_config go2_rl\<rparr>"
  have t: "throws (InitRL no_files ?p ?rl)"
    by (simp add: InitRL_def ReadYamlRL_def no_files_def Let_def print_def)
  then obtain e rl1 where 1: "InitRL no_files ?p ?rl = Throws e rl1"
    by (cases "InitRL no_files ?p ?rl") auto
  have t': "throws (InitRL policy_missing ?p ?rl)"
    by (simp add: InitRL_def ReadYamlRL_def policy_missing_def Let_def print_def)
  then obtain e' rl1' where 2: "InitRL policy_missing ?p ?rl = Throws e' rl1'"
    by (cases "InitRL policy_missing ?p ?rl") auto
  from activation_failure_falls_back[OF _ 1, of RLFSMStateRL_Locomotion go2_state]
  have a: "rl_init_done (enter RLFSMStateRL_Locomotion no_files go2_state go2_rl) = False \<and>
   control_state (control (enter RLFSMStateRL_Locomotion no_files go2_state go2_rl)) = STATE_POS_GETUP \<and>
   checkChange RLFSMStateRL_Locomotion (enter RLFSMStateRL_Locomotion no_files go2_state go2_rl)
     = ''RLFSMStateGetUp''"
    by simp
  from activation_failure_falls_back[OF _ 2, of RLFSMStateRL_Navigation go2_state fed]
  have b: "rl_init_done (enter RLFSMStateRL_Navigation policy_missing go2_state go2_rl) = False \<and>
   control_state (control (enter RLFSMStateRL_Navigation policy_missing go2_state go2_rl))
     = STATE_POS_GETUP \<and>
   checkChange RLFSMStateRL_Navigation (enter RLFSMStateRL_Navigation policy_missing go2_state go2_rl)
     = ''RLFSMStateGetUp'' \<and>
   rl_init_done (exit RLFSMStateRL_Navigation fed) = False"
    by simp
  from t t' a b show ?thesis by simp
qed

text \<open>
  Claim C4 as the specification words it fails for a failure of the initialization that
  does not throw. With the profile file of the two-joint robot missing and its policy file in
  place, \<open>ReadYamlRL\<close> prints that the file does not exist and returns, \<open>InitRL\<close> returns,
  and the entry of \<open>RLFSMStateRL_Locomotion\<close> sets \<open>rl_init_done\<close>, leaves the requested
  mode at \<open>STATE_RL_LOCOMOTION\<close> and prints no \<open>InitRL() failed\<close>: the transition check
  evaluated next stays in \<open>RLFSMStateRL_Locomotion\<close>.
\<close>

theorem missing_profile_counterexample:
  "rl_init_done (enter RLFSMStateRL_Locomotion profile_missing go2_state go2_rl) = True \<and>
   control_state (control (enter RLFSMStateRL_Locomotion profile_missing go2_state go2_rl))
     = STATE_RL_LOCOMOTION \<and>
   console (enter RLFSMStateRL_Locomotion profile_missing go2_state go2_rl)
     = [Error_file_missing ''/rl_sar/models/go2/himloco/config.yaml''] \<and>
   checkChange RLFSMStateRL_Locomotion (enter RLFSMStateRL_Locomotion profile_missing go2_state go2_rl)
     = ''RLFSMStateRL_Locomotion''"
  by (simp add: RL_Locomotion_enter_def InitRL_def ReadYamlRL_def InitObservations_def
        InitOutputs_def InitControl_def zeros_def profile_missing_def Let_def print_def
        RL_Locomotion_checkChange_def go2_rl_def go2_params_def)

section \<open>Observation term names\<close>

lemma observation_term_unrecognized:
  "observation \<notin> set recognized_terms \<Longrightarrow> observation_term rl observation obs_list = Some obs_list"
  by (simp add: observation_term_def recognized_terms_def)

lemma observation_loop_filter:
  "observation_loop rl names obs_list =
     observation_loop rl (filter (\<lambda>n. n \<in> set recognized_terms) names) obs_list"
  by (induction names arbitrary: obs_list)
     (auto simp: observation_term_unrecognized split: option.splits)

lemma observation_term_names:
  "observation_term (rl\<lparr>params := (params rl)\<lparr>observations := names\<rparr>\<rparr>) = observation_term rl"
  by (intro ext) (simp add: observation_term_def)

lemma observation_loop_names:
  "observation_loop (rl\<lparr>params := (params rl)\<lparr>observations := names\<rparr>\<rparr>) xs obs_list
     = observation_loop rl xs obs_list"
  by (induction xs arbitrary: obs_list) (simp_all add: observation_term_names split: option.splits)

lemma InitRL_returns:
  assumes "yaml_file env (source_dir env @ ''/models/'' @ robot_path @ ''/config.yaml'') robot_path
             = YamlParsed p"
    and "jit_load env (source_dir env @ ''/models/'' @ robot_path @ ''/'' @ model_name p)"
    and "0 \<le> num_of_dofs p"
  shows "\<exists>rl'. InitRL env robot_path rl = Returns rl' \<and>
           observations (params rl') = map (rename_ang_vel (is_simulation rl)) (observations p)"
  using assms
  by (simp add: InitRL_def ReadYamlRL_def Let_def InitObservations_def InitOutputs_def
        InitControl_def zeros_def)


text \<open>
  Claim C5, as the code has it. An observation term name outside the recognized set is
  reported nowhere. Observation assembly skips it: the row assembled for a list of names
  is the row assembled for the list without its unrecognized names. Activation does not
  look at it: whenever the profile is read, the policy file loads and \<open>num_of_dofs\<close> is not
  negative, \<open>InitRL\<close> returns, whatever the names are, and the names it leaves in the
  parameters are those of the profile with only \<open>ang_vel\<close> renamed.
\<close>

theorem unrecognized_terms_are_skipped:
  "ComputeObservation rl =
     ComputeObservation
       (rl\<lparr>params := (params rl)
              \<lparr>observations := filter (\<lambda>n. n \<in> set recognized_terms) (observations (params rl))\<rparr>\<rparr>) \<and>
   (yaml_file env (source_dir env @ ''/models/'' @ robot_path @ ''/config.yaml'') robot_path
      = YamlParsed p \<and>
    jit_load env (source_dir env @ ''/models/'' @ robot_path @ ''/'' @ model_name p) \<and>
    0 \<le> num_of_dofs p \<longrightarrow>
      (\<exists>rl'. InitRL env robot_path rl0 = Returns rl' \<and>
         observations (params rl') = map (rename_ang_vel (is_simulation rl0)) (observations p)))"
proof (intro conjI impI)
  show "ComputeObservation rl =
     ComputeObservation
       (rl\<lparr>params := (params rl)
              \<lparr>observations := filter (\<lambda>n. n \<in> set recognized_terms) (observations (params rl))\<rparr>\<rparr>)"
    unfolding ComputeObservation_def
    by (simp add: observation_loop_names observation_loop_filter[symmetric])
qed (auto intro: InitRL_returns)


theorem unrecognized_terms_witness:
  "yaml_file foo_files (source_dir foo_files @ ''/models/'' @ ''go2/himloco'' @ ''/config.yaml'')
      ''go2/himloco'' = YamlParsed (go2_params\<lparr>observations := [''commands'', ''foo'']\<rparr>) \<and>
   throws (InitRL foo_files ''go2/himloco'' go2_rl) = False \<and>
   ComputeObservation (go2_rl\<lparr>params := go2_params\<lparr>observations := [''commands'', ''foo'']\<rparr>\<rparr>)
     = ComputeObservation (go2_rl\<lparr>params := go2_params\<lparr>observations := [''commands'']\<rparr>\<rparr>)"
proof -
  let ?p = "go2_params\<lparr>observations := [''commands'', ''foo'']\<rparr>"
  let ?rl = "go2_rl\<lparr>params := ?p\<rparr>"
  have y: "yaml_file foo_files (source_dir foo_files @ ''/models/'' @ ''go2/himloco'' @ ''/config.yaml'')
      ''go2/himloco'' = YamlParsed ?p"
    by (simp add: foo_files_def)
  have j: "jit_load foo_files (source_dir foo_files @ ''/models/'' @ ''go2/himloco'' @ ''/'' @ model_name ?p)"
    by (simp add: foo_files_def)
  have n: "0 \<le> num_of_dofs ?p" by (simp add: go2_params_def)
  have f: "filter (\<lambda>n. n \<in> set recognized_terms) (observations (params ?rl)) = [''commands'']"
    by (simp add: recognized_terms_def)
  from unrecognized_terms_are_skipped[of ?rl foo_files "''go2/himloco''" ?p go2_rl] y j n
  have "ComputeObservation ?rl =
          ComputeObservation (?rl\<lparr>params := (params ?rl)\<lparr>observations :=
             filter (\<lambda>n. n \<in> set recognized_terms) (observations (params ?rl))\<rparr>\<rparr>)"
    and "\<exists>rl'. InitRL foo_files ''go2/himloco'' go2_rl = Returns rl'"
    by blast+
  then have "ComputeObservation ?rl = ComputeObservation (go2_rl\<lparr>params := go2_params\<lparr>observations := [''commands'']\<rparr>\<rparr>)"
    and "throws (InitRL foo_files ''go2/himloco'' go2_rl) = False"
    unfolding f by auto
  with y show ?thesis by simp
qed


text \<open>
  Claim C5 as the specification words it fails. With a profile that lists the terms
  \<open>commands\<close> and \<open>foo\<close>, entering \<open>RLFSMStateRL_Locomotion\<close> sets \<open>rl_init_done\<close>, prints
  nothing, keeps the requested mode and keeps \<open>foo\<close> among the terms; the observation then
  assembled has the three columns of \<open>commands\<close> only.
\<close>

theorem unrecognized_term_counterexample:
  "''foo'' \<notin> set recognized_terms \<and>
   observations (params (enter RLFSMStateRL_Locomotion foo_files go2_state go2_rl))
     = [''commands'', ''foo''] \<and>
   rl_init_done (enter RLFSMStateRL_Locomotion foo_files go2_state go2_rl) = True \<and>
   control_state (control (enter RLFSMStateRL_Locomotion foo_files go2_state go2_rl))
     = STATE_RL_LOCOMOTION \<and>
   console (enter RLFSMStateRL_Locomotion foo_files go2_state go2_rl) = [] \<and>
   ComputeObservation (enter RLFSMStateRL_Locomotion foo_files go2_state go2_rl) = Some [0, 0, 0]"
proof -
  have e: "enter RLFSMStateRL_Locomotion foo_files go2_state go2_rl =
     go2_rl\<lparr>config_name := ''himloco'',
            params := go2_params\<lparr>observations := [''commands'', ''foo'']\<rparr>,
            model := Some ''/rl_sar/models/go2/himloco/policy.pt'',
            obs := go2_obs\<lparr>obs_dof_pos := [0, 0], obs_dof_vel := [0, 0]\<rparr>,
            output_dof_tau := Some [0, 0], output_dof_pos := Some [0, 0],
            output_dof_vel := Some [0, 0],
            control := (control go2_rl)\<lparr>control_x := 0, control_y := 0, control_yaw := 0\<rparr>,
            rl_init_done := True\<rparr>"
    by (simp add: RL_Locomotion_enter_def InitRL_def ReadYamlRL_def Let_def InitObservations_def
          InitOutputs_def InitControl_def zeros_def foo_files_def go2_rl_def go2_params_def
          go2_obs_def rename_ang_vel_def numeral_2_eq_2)
  show ?thesis
    unfolding e
    by (simp add: recognized_terms_def go2_rl_def go2_params_def go2_obs_def
          ComputeObservation_def observation_term_def row_op_def cat1_def clamp_def)
qed

section \<open>The action decoder\<close>

lemma row_index_in_range: "0 \<le> w \<Longrightarrow> w < int n \<Longrightarrow> row_index n w = Some (nat w)"
  by (simp add: row_index_def)

lemma row_op_same_width: "length a = length b \<Longrightarrow> row_op f a b = Some (map2 f a b)"
  by (simp add: row_op_def)

lemma wheel_loop_in_range:
  assumes "length pos = n" "length vel = n" "length as = n"
    and "list_all (\<lambda>w. 0 \<le> w \<and> w < int n) ws"
  shows "\<exists>pos' vel'. wheel_loop as ws (pos, vel) = Some (pos', vel') \<and>
           length pos' = n \<and> length vel' = n \<and>
           (\<forall>i<n. pos' ! i = (if int i \<in> set ws then 0 else pos ! i) \<and>
                  vel' ! i = (if int i \<in> set ws then as ! i else vel ! i))"
  using assms
proof (induction ws arbitrary: pos vel)
  case Nil
  then show ?case by simp
next
  case (Cons w ws)
  from Cons.prems have w: "0 \<le> w" "w < int n" and ws: "list_all (\<lambda>w. 0 \<le> w \<and> w < int n) ws"
    by simp_all
  let ?k = "nat w"
  have k: "?k < n" "int ?k = w" using w by simp_all
  have step: "wheel_loop as (w # ws) (pos, vel) = wheel_loop as ws (pos[?k := 0], vel[?k := as ! ?k])"
    using Cons.prems(1-3) w by (simp add: row_set_def row_at_def row_index_in_range)
  from Cons.IH[of "pos[?k := 0]" "vel[?k := as ! ?k]", OF _ _ Cons.prems(3) ws] Cons.prems(1,2)
  obtain pos' vel' where r: "wheel_loop as ws (pos[?k := 0], vel[?k := as ! ?k]) = Some (pos', vel')"
    "length pos' = n" "length vel' = n"
    and v: "\<forall>i<n. pos' ! i = (if int i \<in> set ws then 0 else pos[?k := 0] ! i) \<and>
                  vel' ! i = (if int i \<in> set ws then as ! i else vel[?k := as ! ?k] ! i)"
    by auto
  have "pos' ! i = (if int i \<in> set (w # ws) then 0 else pos ! i) \<and>
        vel' ! i = (if int i \<in> set (w # ws) then as ! i else vel ! i)" if "i < n" for i
  proof (cases "i = ?k")
    case True
    with v that k Cons.prems(1,2) show ?thesis by auto
  next
    case False
    then have "int i \<noteq> w" using k by auto
    with v that False Cons.prems(1,2) show ?thesis by auto
  qed
  with r step show ?case by simp
qed

lemma two_entries: "length xs = 2 \<Longrightarrow> xs = [xs ! 0, xs ! 1]"
  by (cases xs; cases "tl xs") auto


text \<open>
  Claim C6. Let the action row, \<open>action_scale\<close>, \<open>default_dof_pos\<close>, the measured
  positions and velocities, \<open>rl_kp\<close>, \<open>rl_kd\<close> and \<open>torque_limits\<close> all have one entry
  per joint, and let every wheel index name a joint. Then \<open>ComputeOutput\<close> returns, and for
  every joint: if it is a wheel, its target velocity is the scaled action and its target
  position is the default position, whatever the action; if it is not a wheel, its target
  velocity is 0 and its target position is the scaled action plus the default position; and
  its diagnostic torque is \<open>rl_kp (scaled + default - measured position) - rl_kd measured
  velocity\<close>, clamped to the interval from minus the torque limit to the torque limit.
\<close>

theorem ComputeOutput_decodes:
  assumes widths: "length actions = n" "length (action_scale (params rl)) = n"
      "length (default_dof_pos (params rl)) = n" "length (obs_dof_pos (obs rl)) = n"
      "length (obs_dof_vel (obs rl)) = n" "length (rl_kp (params rl)) = n"
      "length (rl_kd (params rl)) = n" "length (torque_limits (params rl)) = n"
    and wheels: "list_all (\<lambda>w. 0 \<le> w \<and> w < int n) (wheel_indices (params rl))"
  shows "\<exists>pos vel tau. ComputeOutput rl actions = Some (pos, vel, tau) \<and>
           length pos = n \<and> length vel = n \<and> length tau = n \<and>
           (\<forall>i<n.
              (int i \<in> set (wheel_indices (params rl)) \<longrightarrow>
                 vel ! i = actions ! i * action_scale (params rl) ! i \<and>
                 pos ! i = default_dof_pos (params rl) ! i) \<and>
              (int i \<notin> set (wheel_indices (params rl)) \<longrightarrow>
                 vel ! i = 0 \<and>
                 pos ! i = actions ! i * action_scale (params rl) ! i
                             + default_dof_pos (params rl) ! i) \<and>
              tau ! i =
                clamp (rl_kp (params rl) ! i *
                         (actions ! i * action_scale (params rl) ! i
                            + default_dof_pos (params rl) ! i - obs_dof_pos (obs rl) ! i)
                       - rl_kd (params rl) ! i * obs_dof_vel (obs rl) ! i)
                      (- torque_limits (params rl) ! i) (torque_limits (params rl) ! i))"
proof -
  let ?as = "map2 (*) actions (action_scale (params rl))"
  have as: "row_op (*) actions (action_scale (params rl)) = Some ?as" "length ?as = n"
    using widths by (simp_all add: row_op_same_width)
  from wheel_loop_in_range[of ?as n "map (\<lambda>_. 0) actions" ?as, OF as(2) _ as(2) wheels] widths
  obtain pos' vel' where wl: "wheel_loop ?as (wheel_indices (params rl)) (?as, map (\<lambda>_. 0) actions)
                                = Some (pos', vel')"
    and len: "length pos' = n" "length vel' = n"
    and v: "\<forall>i<n. pos' ! i = (if int i \<in> set (wheel_indices (params rl)) then 0 else ?as ! i) \<and>
                   vel' ! i = (if int i \<in> set (wheel_indices (params rl)) then ?as ! i
                               else map (\<lambda>_. 0) actions ! i)"
    by auto
  let ?pos = "map2 (+) pos' (default_dof_pos (params rl))"
  let ?all = "map2 (+) pos' vel'"
  let ?t1 = "map2 (+) ?all (default_dof_pos (params rl))"
  let ?t2 = "map2 (-) ?t1 (obs_dof_pos (obs rl))"
  let ?t3 = "map2 (*) (rl_kp (params rl)) ?t2"
  let ?t4 = "map2 (*) (rl_kd (params rl)) (obs_dof_vel (obs rl))"
  let ?t5 = "map2 (-) ?t3 ?t4"
  let ?t6 = "map2 max ?t5 (map uminus (torque_limits (params rl)))"
  let ?tau = "map2 min ?t6 (torque_limits (params rl))"
  have out: "ComputeOutput rl actions = Some (?pos, vel', ?tau)"
    unfolding ComputeOutput_def using as wl len widths
    by (simp add: row_op_same_width)
  have lens: "length ?pos = n" "length ?tau = n" using len widths by simp_all
  have all: "?all ! i = ?as ! i" if "i < n" for i
    using v that len widths by simp
  have vals: "(int i \<in> set (wheel_indices (params rl)) \<longrightarrow>
                 vel' ! i = actions ! i * action_scale (params rl) ! i \<and>
                 ?pos ! i = default_dof_pos (params rl) ! i) \<and>
              (int i \<notin> set (wheel_indices (params rl)) \<longrightarrow>
                 vel' ! i = 0 \<and>
                 ?pos ! i = actions ! i * action_scale (params rl) ! i
                             + default_dof_pos (params rl) ! i) \<and>
              ?tau ! i =
                clamp (rl_kp (params rl) ! i *
                         (actions ! i * action_scale (params rl) ! i
                            + default_dof_pos (params rl) ! i - obs_dof_pos (obs rl) ! i)
                       - rl_kd (params rl) ! i * obs_dof_vel (obs rl) ! i)
                      (- torque_limits (params rl) ! i) (torque_limits (params rl) ! i)"
    if "i < n" for i
  proof -
    have a: "?as ! i = actions ! i * action_scale (params rl) ! i"
      using that widths by simp
    have t: "?tau ! i = clamp (rl_kp (params rl) ! i *
                         (?all ! i + default_dof_pos (params rl) ! i - obs_dof_pos (obs rl) ! i)
                       - rl_kd (params rl) ! i * obs_dof_vel (obs rl) ! i)
                      (- torque_limits (params rl) ! i) (torque_limits (params rl) ! i)"
      using that widths len by (simp add: clamp_def)
    from v that len widths a t all[OF that] show ?thesis by simp
  qed
  from out lens len vals show ?thesis by blast
qed


theorem ComputeOutput_decodes_witness:
  "list_all (\<lambda>w. 0 \<le> w \<and> w < int 2) (wheel_indices (params go2_rl)) \<and>
   ComputeOutput go2_rl [2, 4] = Some ([1 / 2, 0], [0, 1], [0, 10])"
proof -
  have w: "list_all (\<lambda>w. 0 \<le> w \<and> w < int 2) (wheel_indices (params go2_rl))"
    by (simp add: go2_rl_def go2_params_def)
  from ComputeOutput_decodes[of "[2, 4]" 2 go2_rl, OF _ _ _ _ _ _ _ _ w]
  obtain pos vel tau where out: "ComputeOutput go2_rl [2, 4] = Some (pos, vel, tau)"
    and len: "length pos = 2" "length vel = 2" "length tau = 2"
    and vals: "\<forall>i<2.
              (int i \<in> set (wheel_indices (params go2_rl)) \<longrightarrow>
                 vel ! i = [2, 4] ! i * action_scale (params go2_rl) ! i \<and>
                 pos ! i = default_dof_pos (params go2_rl) ! i) \<and>
              (int i \<notin> set (wheel_indices (params go2_rl)) \<longrightarrow>
                 vel ! i = 0 \<and>
                 pos ! i = [2, 4] ! i * action_scale (params go2_rl) ! i
                             + default_dof_pos (params go2_rl) ! i) \<and>
              tau ! i =
                clamp (rl_kp (params go2_rl) ! i *
                         ([2, 4] ! i * action_scale (params go2_rl) ! i
                            + default_dof_pos (params go2_rl) ! i - obs_dof_pos (obs go2_rl) ! i)
                       - rl_kd (params go2_rl) ! i * obs_dof_vel (obs go2_rl) ! i)
                      (- torque_limits (params go2_rl) ! i) (torque_limits (params go2_rl) ! i)"
    by (auto simp: go2_rl_def go2_params_def go2_obs_def)
  from vals[rule_format, of 0] have 0: "pos ! 0 = 1 / 2" "vel ! 0 = 0" "tau ! 0 = 0"
    by (simp_all add: go2_rl_def go2_params_def go2_obs_def clamp_def)
  from vals[rule_format, of 1] have 1: "pos ! 1 = 0" "vel ! 1 = 1" "tau ! 1 = 10"
    by (simp_all add: go2_rl_def go2_params_def go2_obs_def clamp_def)
  from two_entries[OF len(1)] two_entries[OF len(2)] two_entries[OF len(3)] 0 1
  have "pos = [1 / 2, 0]" "vel = [0, 1]" "tau = [0, 10]" by simp_all
  with out w show ?thesis by simp
qed

section \<open>The inverse rotation by a quaternion\<close>

text \<open>
  Claim C7. For a quaternion row of four entries and a vector row of three,
  \<open>QuatRotateInverse\<close> returns \<open>v (2 w\<^sup>2 - 1) - 2 w (q_vec \<times> v) + 2 q_vec (q_vec \<cdot> v)\<close>,
  where under \<open>isaacsim\<close> the scalar \<open>w\<close> is the first entry and \<open>q_vec\<close> the last three,
  and under \<open>isaacgym\<close> the scalar is the last entry and \<open>q_vec\<close> the first three. With the
  identity quaternion of either convention it returns every vector unchanged.
\<close>

theorem QuatRotateInverse_formula:
  "QuatRotateInverse [q0, q1, q2, q3] [v0, v1, v2] ''isaacsim''
     = Some (row3 (inverse_rotation_formula q0 (q1, q2, q3) (v0, v1, v2))) \<and>
   QuatRotateInverse [q0, q1, q2, q3] [v0, v1, v2] ''isaacgym''
     = Some (row3 (inverse_rotation_formula q3 (q0, q1, q2) (v0, v1, v2))) \<and>
   QuatRotateInverse [1, 0, 0, 0] [v0, v1, v2] ''isaacsim'' = Some [v0, v1, v2] \<and>
   QuatRotateInverse [0, 0, 0, 1] [v0, v1, v2] ''isaacgym'' = Some [v0, v1, v2]"
  by (simp add: QuatRotateInverse_def row_at_def row_index_def inverse_rotation_formula_def
        Let_def algebra_simps)


section \<open>The descent of \<open>RLFSMStateGetDown\<close>\<close>

lemma on_the_ramp_nth:
  "on_the_ramp rl c \<Longrightarrow> i < nat (num_of_dofs (params rl)) \<Longrightarrow>
     cmd_q c ! i = lerp (st_q (now_state rl) ! i) (st_q (start_state rl) ! i) (running_percent rl)"
  by (simp add: on_the_ramp_def list_all_iff)

lemma GetDown_run_writes:
  assumes "GetDown_run rl c = Some (rl', c')" "running_percent rl < 1"
  shows "on_the_ramp rl' c'"
proof -
  let ?rl2 = "rl\<lparr>running_percent := ramp_step (running_percent rl)\<rparr>"
  let ?n = "nat (num_of_dofs (params rl))"
  from assms have fits: "GetDown_fits rl c ?n"
    and c': "c' = GetDown_written ?rl2 c ?n"
    and rl': "rl' = print (Info_GettingDown (float32 (ramp_step (running_percent rl) * 100))) ?rl2"
    by (auto simp: GetDown_run_closed split: if_splits)
  have "cmd_q c' ! i = lerp (st_q (now_state rl') ! i) (st_q (start_state rl') ! i)
                          (running_percent rl')" if "i < ?n" for i
    using that fits unfolding c' rl'
    by (simp add: GetDown_written_def GetDown_fits_def overwrite_nth print_def)
  then show ?thesis
    unfolding on_the_ramp_def list_all_iff by (simp add: rl' print_def)
qed

lemma GetDown_run_keeps:
  "\<not> running_percent rl < 1 \<Longrightarrow> GetDown_run rl c = Some (rl, c)"
  by (simp add: GetDown_run_def)

lemma GetDown_ticks_on_the_ramp:
  assumes "calls env (map (Run RLFSMStateGetDown) rs) (rl, c) = Some (rl', c')"
    and "on_the_ramp rl c \<or> (running_percent rl < 1 \<and> rs \<noteq> [])"
  shows "on_the_ramp rl' c'"
  using assms
proof (induction rs arbitrary: rl c)
  case Nil
  then show ?case by simp
next
  case (Cons r rs)
  from Cons.prems(1) obtain rl1 c1 where 1: "GetDown_run rl c = Some (rl1, c1)"
    and 2: "calls env (map (Run RLFSMStateGetDown) rs) (rl1, c1) = Some (rl', c')"
    by (auto split: option.splits)
  have "on_the_ramp rl1 c1"
  proof (cases "running_percent rl < 1")
    case True
    with 1 show ?thesis by (rule GetDown_run_writes)
  next
    case False
    with 1 GetDown_run_keeps[of rl c] Cons.prems(2) show ?thesis by simp
  qed
  with Cons.IH[OF 2] show ?case by simp
qed

lemma calls_runs_frame:
  assumes "calls env (map (Run st) rs) (rl, c) = Some (rl', c')"
  shows "start_state rl' = start_state rl \<and> now_state rl' = now_state rl \<and> params rl' = params rl"
  using assms
proof (induction rs arbitrary: rl c)
  case Nil
  then show ?case by simp
next
  case (Cons r rs)
  from Cons.prems obtain rl1 c1 where 1: "run st r rl c = Some (rl1, c1)"
    and 2: "calls env (map (Run st) rs) (rl1, c1) = Some (rl', c')"
    by (auto split: option.splits)
  from run_start_state[OF 1] Cons.IH[OF 2] show ?case by simp
qed


text \<open>
  Claim C8. After any history of calls, take an activation of \<open>RLFSMStateGetDown\<close>
  entered at the measured robot state \<open>r\<close> and ticked at least once. Then for every joint
  below \<open>num_of_dofs\<close> the commanded position is the interpolation from the position
  measured at that entry to the position that \<open>RLFSMStateGetUp\<close> captured at its most
  recent entry in the history, at the current progress, which after \<open>n\<close> ticks is the step
  of the counter iterated \<open>n\<close> times from 0. The destination is neither the default pose
  nor a fixed rest pose.
\<close>

theorem GetDown_interpolates_to_last_GetUp_entry:
  assumes history: "calls env history (rl0, c0) = Some (rl1, c1)"
    and activation: "calls env (Enter RLFSMStateGetDown r # map (Run RLFSMStateGetDown) rs) (rl1, c1)
                       = Some (rl2, c2)"
    and ticked: "rs \<noteq> []"
    and joint: "i < nat (num_of_dofs (params rl2))"
  shows "cmd_q c2 ! i =
           lerp (st_q r ! i) (st_q (last_GetUp_entry history (start_state rl0)) ! i)
                (running_percent rl2) \<and>
         running_percent rl2 = (ramp_step ^^ length rs) 0"
proof -
  let ?e = "GetDown_enter r rl1"
  from activation have ticks: "calls env (map (Run RLFSMStateGetDown) rs) (?e, c1) = Some (rl2, c2)"
    by simp
  have e: "running_percent ?e = 0" "now_state ?e = r" "start_state ?e = start_state rl1"
    by (simp_all add: GetDown_enter_def Let_def)
  from GetDown_ticks_on_the_ramp[OF ticks] e ticked have ramp: "on_the_ramp rl2 c2" by simp
  from calls_runs_frame[OF ticks] e
  have f: "start_state rl2 = start_state rl1" "now_state rl2 = r" by simp_all
  from calls_start_state[OF history] f
  have s: "start_state rl2 = last_GetUp_entry history (start_state rl0)" by simp
  from ramp_ticks[of RLFSMStateGetDown env rs ?e c1 rl2 c2] ticks e
  have p: "running_percent rl2 = (ramp_step ^^ length rs) 0" by simp
  from on_the_ramp_nth[OF ramp joint] f s p show ?thesis by simp
qed

theorem GetDown_interpolates_witness:
  "calls no_files [Enter RLFSMStateGetUp lying] (go2_rl, go2_command)
     = Some (GetUp_enter lying go2_rl, go2_command) \<and>
   last_GetUp_entry [Enter RLFSMStateGetUp lying] (start_state go2_rl) = lying \<and>
   start_state go2_rl \<noteq> lying \<and>
   map_option (\<lambda>s. cmd_q (snd s) ! 0)
     (calls no_files (Enter RLFSMStateGetDown standing # map (Run RLFSMStateGetDown) [standing])
        (GetUp_enter lying go2_rl, go2_command)) = Some (8589935 / 4294967296) \<and>
   map_option (\<lambda>s. cmd_q (snd s) ! 1)
     (calls no_files (Enter RLFSMStateGetDown standing # map (Run RLFSMStateGetDown) [standing])
        (GetUp_enter lying go2_rl, go2_command)) = Some (- 8589935 / 4294967296)"
proof -
  let ?h = "GetUp_enter lying go2_rl"
  have h: "calls no_files [Enter RLFSMStateGetUp lying] (go2_rl, go2_command)
     = Some (?h, go2_command)" by simp
  have fits: "ramp_fits RLFSMStateGetDown (enter RLFSMStateGetDown no_files standing ?h) go2_command"
    by (simp add: ramp_fits_def GetDown_fits_def GetDown_enter_def GetUp_enter_def Let_def go2_defs)
  from ramp_ticks_return[OF _ fits, of no_files "[standing]"]
  obtain rl2 c2 where a: "calls no_files (Enter RLFSMStateGetDown standing # map (Run RLFSMStateGetDown) [standing])
        (?h, go2_command) = Some (rl2, c2)" by auto
  from calls_runs_frame[of no_files RLFSMStateGetDown "[standing]" "GetDown_enter standing ?h" go2_command rl2 c2] a
  have "params rl2 = go2_params" by (simp add: GetDown_enter_def GetUp_enter_def Let_def go2_rl_def)
  then have j: "0 < nat (num_of_dofs (params rl2))" "1 < nat (num_of_dofs (params rl2))"
    by (simp_all add: go2_params_def)
  have 1: "(ramp_step ^^ length [standing]) 0 = 8589935 / 4294967296"
    by (simp add: ramp_step_def step32 float32_bin round_half_even_def)
  from GetDown_interpolates_to_last_GetUp_entry[OF h a _ j(1)]
  have q0: "cmd_q c2 ! 0 = 8589935 / 4294967296"
    unfolding 1 by (simp add: go2_defs lerp_def)
  from GetDown_interpolates_to_last_GetUp_entry[OF h a _ j(2)]
  have q1: "cmd_q c2 ! 1 = - 8589935 / 4294967296"
    unfolding 1 by (simp add: go2_defs lerp_def)
  have d: "start_state go2_rl \<noteq> lying"
    by (simp add: go2_defs)
  from h a q0 q1 d show ?thesis by simp
qed

section \<open>The safety monitors\<close>

lemma exceeds_iff: "exceeds tau limits i \<longleftrightarrow> tau ! i < - limits ! i \<or> tau ! i > limits ! i"
  by (auto simp: exceeds_def abs_if)

lemma TorqueProtect_scan_loop:
  assumes "n \<le> length tau" "n \<le> length (torque_limits (params rl))"
  shows "for_loop n (TorqueProtect_scan rl tau) ([], []) =
           Some (map int (filter (exceeds tau (torque_limits (params rl))) [0..<n]),
                 map (\<lambda>i. tau ! i) (filter (exceeds tau (torque_limits (params rl))) [0..<n]))"
  using assms
proof (induction n)
  case 0
  show ?case by simp
next
  case (Suc n)
  then show ?case
    by (simp add: TorqueProtect_scan_def row_at_nat Let_def exceeds_iff)
qed

lemma TorqueProtect_warn_loop:
  assumes "m \<le> length F" "list_all (\<lambda>i. i < length (torque_limits (params rl))) F"
  shows "for_loop m (TorqueProtect_warn (map int F, map (\<lambda>i. tau ! i) F)) rl =
           Some (rl\<lparr>console := console rl @
                   map (\<lambda>i. Warning_Torque (int i + 1) (tau ! i)
                                (- torque_limits (params rl) ! i) (torque_limits (params rl) ! i))
                       (take m F)\<rparr>)"
  using assms(1)
proof (induction m)
  case 0
  show ?case by simp
next
  case (Suc m)
  then have m: "m < length F" by simp
  with assms(2) have "F ! m < length (torque_limits (params rl))"
    by (simp add: list_all_length)
  with Suc m show ?case
    by (simp add: TorqueProtect_warn_def vec_at_def row_at_nat print_def take_Suc_conv_app_nth)
qed

lemma TorqueProtect_closed:
  assumes "length tau \<le> length (torque_limits (params rl))"
  shows "TorqueProtect tau rl =
           Some (rl\<lparr>console := console rl @ torque_warnings tau (torque_limits (params rl))\<rparr>)"
proof -
  let ?F = "filter (exceeds tau (torque_limits (params rl))) [0..<length tau]"
  have in_range: "list_all (\<lambda>i. i < length (torque_limits (params rl))) ?F"
    using assms by (auto simp: list_all_iff)
  have scan: "for_loop (length tau) (TorqueProtect_scan rl tau) ([], []) =
                Some (map int ?F, map (\<lambda>i. tau ! i) ?F)"
    using assms by (simp add: TorqueProtect_scan_loop)
  show ?thesis
  proof (cases "?F = []")
    case True
    then show ?thesis
      unfolding TorqueProtect_def scan by (simp add: torque_warnings_def)
  next
    case False
    with TorqueProtect_warn_loop[of "length ?F" ?F rl tau, OF _ in_range]
    show ?thesis
      unfolding TorqueProtect_def scan by (simp add: torque_warnings_def)
  qed
qed

lemma pitch_saturates:
  "(if \<bar>s\<bar> \<ge> 1 then copysign 90 s else A) = (if s \<ge> 1 then 90 else if s \<le> - 1 then - 90 else A)"
  for s A :: real
  by (auto simp: copysign_def)

lemma vec_at_four:
  "vec_at [q0, q1, q2, q3] 0 = Some q0" "vec_at [q0, q1, q2, q3] 1 = Some q1"
  "vec_at [q0, q1, q2, q3] 2 = Some q2" "vec_at [q0, q1, q2, q3] 3 = Some q3"
  by (simp_all add: vec_at_def)

lemma AttitudeProtect_isaacgym:
  assumes "framework (params rl) = ''isaacgym''"
  shows "AttitudeProtect [q0, q1, q2, q3] pitch_threshold roll_threshold rl =
           Some (rl\<lparr>console := console rl @
                          attitude_warnings roll_threshold pitch_threshold
                            (roll_degrees q3 q0 q1 q2) (pitch_degrees q3 q0 q1 q2)\<rparr>)"
  unfolding AttitudeProtect_def Let_def pitch_saturates roll_degrees_def pitch_degrees_def
    attitude_warnings_def vec_at_four
  using assms by (simp add: print_def power2_eq_square)

lemma AttitudeProtect_isaacsim:
  assumes "framework (params rl) = ''isaacsim''"
  shows "AttitudeProtect [q0, q1, q2, q3] pitch_threshold roll_threshold rl =
           Some (rl\<lparr>console := console rl @
                          attitude_warnings roll_threshold pitch_threshold
                            (roll_degrees q0 q1 q2 q3) (pitch_degrees q0 q1 q2 q3)\<rparr>)"
  unfolding AttitudeProtect_def Let_def pitch_saturates roll_degrees_def pitch_degrees_def
    attitude_warnings_def vec_at_four
  using assms by (simp add: print_def power2_eq_square)



text \<open>
  Claim C9, as the code has it. The two checks return under three conditions that the code
  relies on and does not test: the torque row is no wider than \<open>torque_limits\<close>, the
  framework name is one of the two conventions, and the quaternion has four entries. Under
  these conditions both checks return, and all they do is print. \<open>TorqueProtect\<close> prints
  one warning, with joint number, torque and the two bounds, for each joint whose torque
  exceeds its limit in magnitude. \<open>AttitudeProtect\<close> takes \<open>w, x, y, z\<close> in the order of
  the convention, computes the roll \<open>atan2 (2 (w x + y z)) (1 - 2 (x\<^sup>2 + y\<^sup>2))\<close> and the
  pitch \<open>asin (2 (w y - z x))\<close>, both times 57.2958, with the pitch fixed at 90 or -90 where
  the argument of \<open>asin\<close> is at least 1 in magnitude, and prints a warning for a roll and
  for a pitch whose magnitude exceeds its threshold. The controller either check returns is
  the one it was given with only the printed warnings added: the requested mode and the rest
  of the control target, the joint command and the progress counter are unchanged.
\<close>

theorem safety_checks_only_warn:
  assumes limits: "length tau \<le> length (torque_limits (params rl))"
    and convention: "framework (params rl) = ''isaacgym'' \<or> framework (params rl) = ''isaacsim''"
  shows "TorqueProtect tau rl =
           Some (rl\<lparr>console := console rl @ torque_warnings tau (torque_limits (params rl))\<rparr>) \<and>
         AttitudeProtect [q0, q1, q2, q3] pitch_threshold roll_threshold rl =
           Some (rl\<lparr>console := console rl @
                   (if framework (params rl) = ''isaacgym''
                    then attitude_warnings roll_threshold pitch_threshold
                           (roll_degrees q3 q0 q1 q2) (pitch_degrees q3 q0 q1 q2)
                    else attitude_warnings roll_threshold pitch_threshold
                           (roll_degrees q0 q1 q2 q3) (pitch_degrees q0 q1 q2 q3))\<rparr>) \<and>
         map_option control (TorqueProtect tau rl) = Some (control rl) \<and>
         map_option robot_command (TorqueProtect tau rl) = Some (robot_command rl) \<and>
         map_option running_percent (TorqueProtect tau rl) = Some (running_percent rl) \<and>
         map_option control (AttitudeProtect [q0, q1, q2, q3] pitch_threshold roll_threshold rl)
           = Some (control rl) \<and>
         map_option robot_command (AttitudeProtect [q0, q1, q2, q3] pitch_threshold roll_threshold rl)
           = Some (robot_command rl) \<and>
         map_option running_percent (AttitudeProtect [q0, q1, q2, q3] pitch_threshold roll_threshold rl)
           = Some (running_percent rl)"
proof -
  note t = TorqueProtect_closed[OF limits]
  have a: "AttitudeProtect [q0, q1, q2, q3] pitch_threshold roll_threshold rl =
           Some (rl\<lparr>console := console rl @
                   (if framework (params rl) = ''isaacgym''
                    then attitude_warnings roll_threshold pitch_threshold
                           (roll_degrees q3 q0 q1 q2) (pitch_degrees q3 q0 q1 q2)
                    else attitude_warnings roll_threshold pitch_threshold
                           (roll_degrees q0 q1 q2 q3) (pitch_degrees q0 q1 q2 q3))\<rparr>)"
  proof (cases "framework (params rl) = ''isaacgym''")
    case True
    then show ?thesis by (simp add: AttitudeProtect_isaacgym)
  next
    case False
    with convention have "framework (params rl) = ''isaacsim''" by simp
    with False show ?thesis by (simp add: AttitudeProtect_isaacsim)
  qed
  show ?thesis unfolding t a by simp
qed

theorem safety_checks_witness:
  "TorqueProtect [25, - 3] go2_rl = Some (go2_rl\<lparr>console := [Warning_Torque 1 25 (- 10) 10]\<rparr>) \<and>
   AttitudeProtect [0, 1 / 2, 0, 2] 75 75 go2_rl = Some (go2_rl\<lparr>console := [Warning_Pitch 75 90]\<rparr>) \<and>
   AttitudeProtect [1, 0, 0, 0] 75 75 go2_rl
     = Some (go2_rl\<lparr>console := [Warning_Roll 75 (pi * (572958 / 10000))]\<rparr>) \<and>
   AttitudeProtect [0, 0, 0, 1] 75 75 go2_rl = Some go2_rl"
proof -
  have l: "length [25, - 3 :: real] \<le> length (torque_limits (params go2_rl))"
    and f: "framework (params go2_rl) = ''isaacgym'' \<or> framework (params go2_rl) = ''isaacsim''"
    by (simp_all add: go2_rl_def go2_params_def)
  have tw: "torque_warnings [25, - 3] (torque_limits (params go2_rl)) = [Warning_Torque 1 25 (- 10) 10]"
    by (simp add: torque_warnings_def exceeds_def go2_rl_def go2_params_def upt_rec)
  have aw: "attitude_warnings 75 75 (roll_degrees 2 0 (1 / 2) 0) (pitch_degrees 2 0 (1 / 2) 0)
              = [Warning_Pitch 75 90]"
    by (simp add: attitude_warnings_def roll_degrees_def pitch_degrees_def atan2_def power2_eq_square)
  have "75 < pi * (572958 / 10000)" using pi_ge_two by simp
  then have big: "75 < \<bar>pi * (572958 / 10000)\<bar>" by linarith
  have r: "roll_degrees 0 1 0 0 = pi * (572958 / 10000)"
    by (simp add: roll_degrees_def atan2_def)
  have p: "pitch_degrees 0 1 0 0 = 0"
    by (simp add: pitch_degrees_def)
  have awr: "attitude_warnings 75 75 (roll_degrees 0 1 0 0) (pitch_degrees 0 1 0 0)
              = [Warning_Roll 75 (pi * (572958 / 10000))]"
    unfolding r p attitude_warnings_def using big by simp
  have aw0: "attitude_warnings 75 75 (roll_degrees 1 0 0 0) (pitch_degrees 1 0 0 0) = []"
    by (simp add: attitude_warnings_def roll_degrees_def pitch_degrees_def atan2_def)
  have c: "console go2_rl = []" "framework (params go2_rl) = ''isaacgym''"
    by (simp_all add: go2_rl_def go2_params_def)
  from safety_checks_only_warn[OF l f, of 0 "1 / 2" 0 2 75 75]
  have 1: "TorqueProtect [25, - 3] go2_rl = Some (go2_rl\<lparr>console := [Warning_Torque 1 25 (- 10) 10]\<rparr>)"
    and 2: "AttitudeProtect [0, 1 / 2, 0, 2] 75 75 go2_rl = Some (go2_rl\<lparr>console := [Warning_Pitch 75 90]\<rparr>)"
    unfolding tw aw c by simp_all
  from safety_checks_only_warn[OF l f, of 1 0 0 0 75 75]
  have 3: "AttitudeProtect [1, 0, 0, 0] 75 75 go2_rl
     = Some (go2_rl\<lparr>console := [Warning_Roll 75 (pi * (572958 / 10000))]\<rparr>)"
    unfolding awr c by simp
  from safety_checks_only_warn[OF l f, of 0 0 0 1 75 75]
  have 4: "AttitudeProtect [0, 0, 0, 1] 75 75 go2_rl = Some go2_rl"
    unfolding aw0 c by (simp add: go2_rl_def)
  from 1 2 3 4 show ?thesis by simp
qed

text \<open>
  Claim C9 as the specification words it fails on totality: neither check returns on every
  input. On the two-joint robot, whose \<open>torque_limits\<close> has two entries, \<open>TorqueProtect\<close>
  of a torque row of three entries indexes \<open>torque_limits\<close> at 2 and throws; with a
  framework name that is neither convention \<open>AttitudeProtect\<close> reads \<open>w, x, y, z\<close>
  unassigned; and on a quaternion of three entries it indexes the vector outside its size.
\<close>

theorem safety_checks_partial_counterexample:
  "TorqueProtect [1, 2, 3] go2_rl = None \<and>
   AttitudeProtect [0, 0, 0, 1] 75 75 other_framework = None \<and>
   AttitudeProtect [0, 0, 1] 75 75 go2_rl = None"
  by (simp add: TorqueProtect_def TorqueProtect_scan_def AttitudeProtect_def other_framework_def
        go2_rl_def go2_params_def vec_at_def row_at_def row_index_def Let_def
        numeral_3_eq_3)

section \<open>The framework name\<close>

lemma four_entries:
  assumes "length q = 4"
  obtains a b c d where "q = [a, b, c, d]"
proof -
  from assms obtain a q1 where 1: "q = a # q1" "length q1 = 3" by (cases q) auto
  then obtain b q2 where 2: "q1 = b # q2" "length q2 = 2" by (cases q1) auto
  then obtain c q3 where 3: "q2 = c # q3" "length q3 = 1" by (cases q2) auto
  then obtain d where "q3 = [d]" by (cases q3) auto
  with 1 2 3 that show thesis by simp
qed

lemma three_entries:
  assumes "length v = 3"
  obtains a b c where "v = [a, b, c]"
proof -
  from assms obtain a q1 where 1: "v = a # q1" "length q1 = 2" by (cases v) auto
  then obtain b q2 where 2: "q1 = b # q2" "length q2 = 1" by (cases q1) auto
  then obtain c where "q2 = [c]" by (cases q2) auto
  with 1 2 that show thesis by simp
qed

lemma QuatRotateInverse_defined:
  assumes "length q = 4" "length v = 3"
  shows "QuatRotateInverse q v fw \<noteq> None \<longleftrightarrow> fw = ''isaacsim'' \<or> fw = ''isaacgym''"
proof -
  from assms(1) obtain a b c d where q: "q = [a, b, c, d]" by (rule four_entries)
  from assms(2) obtain x y z where v: "v = [x, y, z]" by (rule three_entries)
  show ?thesis unfolding q v
    by (simp add: QuatRotateInverse_def row_at_def row_index_def Let_def)
qed

lemma AttitudeProtect_defined:
  assumes "length quaternion = 4"
  shows "AttitudeProtect quaternion pt rt rl \<noteq> None \<longleftrightarrow>
           framework (params rl) = ''isaacgym'' \<or> framework (params rl) = ''isaacsim''"
proof -
  from assms obtain a b c d where q: "quaternion = [a, b, c, d]" by (rule four_entries)
  show ?thesis unfolding q
    by (simp add: AttitudeProtect_def vec_at_def Let_def)
qed


text \<open>
  Claim C10. On a quaternion of four entries (and a vector of three), \<open>QuatRotateInverse\<close>
  and \<open>AttitudeProtect\<close> return exactly when the framework name is \<open>isaacsim\<close> or
  \<open>isaacgym\<close>: for any other name the quaternion components are used without having been
  assigned, and the call has no result.
\<close>

theorem framework_precondition:
  assumes "length q = 4" "length v = 3" "length quaternion = 4"
  shows "(QuatRotateInverse q v fw \<noteq> None \<longleftrightarrow> fw = ''isaacsim'' \<or> fw = ''isaacgym'') \<and>
         (AttitudeProtect quaternion pitch_threshold roll_threshold rl \<noteq> None \<longleftrightarrow>
            framework (params rl) = ''isaacgym'' \<or> framework (params rl) = ''isaacsim'')"
  using QuatRotateInverse_defined[OF assms(1,2)] AttitudeProtect_defined[OF assms(3)] by simp

theorem framework_precondition_witness:
  "QuatRotateInverse [0, 0, 0, 1] [0, 0, - 1] ''isaacgym'' \<noteq> None \<and>
   QuatRotateInverse [0, 0, 0, 1] [0, 0, - 1] ''mujoco'' = None \<and>
   AttitudeProtect [0, 0, 0, 1] 75 75 go2_rl \<noteq> None \<and>
   AttitudeProtect [0, 0, 0, 1] 75 75 other_framework = None"
proof -
  have f: "framework (params go2_rl) = ''isaacgym''" "framework (params other_framework) = ''mujoco''"
    by (simp_all add: go2_rl_def go2_params_def other_framework_def)
  from framework_precondition[of "[0, 0, 0, 1]" "[0, 0, - 1]" "[0, 0, 0, 1]" "''isaacgym''" 75 75 go2_rl]
    framework_precondition[of "[0, 0, 0, 1]" "[0, 0, - 1]" "[0, 0, 0, 1]" "''mujoco''" 75 75 other_framework]
    f
  show ?thesis by simp
qed

end
